theory Spec2Isabelle
  imports Main "HOL-Library.Multiset" "HOL-Library.Char_ord" "HOL-Library.List_Lexorder"
begin

section \<open>Admin actions of MediMeet (src/actions/admin.js)\<close>

subsection \<open>JavaScript values and errors\<close>

text \<open>
  A thrown JavaScript error, with its message. \<open>TypeError\<close> is what the engine throws when
  a property of \<open>undefined\<close> or \<open>null\<close> is read; \<open>Error\<close> is what the handlers and the
  store client throw.
\<close>

datatype js_error = Error string | TypeError string

fun message :: "js_error \<Rightarrow> string" where
  "message (Error m) = m"
| "message (TypeError m) = m"

text \<open>
  The values a fetched row is made of: a missing property reads as \<open>undefined\<close>, a nullable
  column may hold \<open>null\<close>, integer columns and timestamps are numbers, ids and enum columns
  are strings, and a row (or an included relation) is an object, a list of properties.
  \<open>JNaN\<close> is the number NaN, which arithmetic on \<open>undefined\<close> gives.
\<close>

datatype jsval =
    JUndefined
  | JNull
  | JNum int
  | JNaN
  | JStr string
  | JObj "(string \<times> jsval) list"

text \<open>
  \<open>v.k\<close>: reading a property of \<open>undefined\<close> or \<open>null\<close> throws a TypeError; an object
  gives the property, or \<open>undefined\<close> when it has none of that name; a number or a string
  has no property of the names read here (\<open>doctor\<close>, \<open>doctorId\<close>, \<open>credits\<close>).
\<close>

fun get_prop :: "jsval \<Rightarrow> string \<Rightarrow> js_error + jsval" where
  "get_prop JUndefined k =
     Inl (TypeError (''Cannot read properties of undefined (reading '' @ [CHR 39] @ k @ [CHR 39] @ '')''))"
| "get_prop JNull k =
     Inl (TypeError (''Cannot read properties of null (reading '' @ [CHR 39] @ k @ [CHR 39] @ '')''))"
| "get_prop (JObj ps) k = Inr (case map_of ps k of None \<Rightarrow> JUndefined | Some v \<Rightarrow> v)"
| "get_prop (JNum n) k = Inr JUndefined"
| "get_prop JNaN k = Inr JUndefined"
| "get_prop (JStr s) k = Inr JUndefined"

text \<open>\<open>!v\<close> is true for \<open>undefined\<close>, \<open>null\<close>, \<open>0\<close>, NaN and the empty string.\<close>

fun js_not :: "jsval \<Rightarrow> bool" where
  "js_not JUndefined = True"
| "js_not JNull = True"
| "js_not (JNum n) = (n = 0)"
| "js_not JNaN = True"
| "js_not (JStr s) = (s = [])"
| "js_not (JObj ps) = False"

text \<open>
  The number an operand of \<open><\<close> or of unary \<open>-\<close> converts to, \<open>None\<close> for NaN:
  \<open>undefined\<close> converts to NaN and \<open>null\<close> to 0. The operands in this file are integer
  columns; the conversion of a string (parsing it) and of an object is not modelled, NaN
  stands for it, and two strings are never compared here.
\<close>

fun to_number :: "jsval \<Rightarrow> int option" where
  "to_number (JNum n) = Some n"
| "to_number JNull = Some 0"
| "to_number JUndefined = None"
| "to_number JNaN = None"
| "to_number (JStr s) = None"
| "to_number (JObj ps) = None"

text \<open>\<open>a < b\<close>: false when either side is NaN.\<close>

definition js_lt :: "jsval \<Rightarrow> jsval \<Rightarrow> bool" where
  "js_lt a b = (case (to_number a, to_number b) of (Some x, Some y) \<Rightarrow> x < y | _ \<Rightarrow> False)"

text \<open>\<open>-a\<close>.\<close>

definition js_neg :: "jsval \<Rightarrow> jsval" where
  "js_neg a = (case to_number a of Some x \<Rightarrow> JNum (- x) | None \<Rightarrow> JNaN)"

subsection \<open>The store\<close>

text \<open>
  The rows of the three tables the handlers touch. The Prisma schema is not among the
  sources, so the columns are the ones the handlers name: in their queries (\<open>where\<close>,
  \<open>data\<close>, \<open>orderBy\<close>, \<open>select\<close>, \<open>include\<close>) and in what they read from a fetched
  payout (\<open>payout.credits\<close>, \<open>payout.doctorId\<close>). Enum columns hold their names as
  strings, as the client returns them; timestamps are integers. A column name that two
  tables share (\<open>id\<close>, \<open>credits\<close>, \<open>createdAt\<close>) or that a handler uses for a local
  (\<open>status\<close>, \<open>userId\<close>, \<open>name\<close>) carries its table in front.
\<close>

record user =
  user_id :: string
  clerkUserId :: string
  role :: string
  verificationStatus :: string
  user_credits :: int
  user_name :: string
  email :: string
  specialty :: string
  user_createdAt :: int

record payout =
  payout_id :: string
  doctorId :: string
  payout_credits :: int
  payout_status :: string
  payout_createdAt :: int
  processedAt :: "int option"
  processedBy :: "string option"

record creditTransaction =
  ct_userId :: string
  ct_amount :: int
  ct_type :: string

record store =
  users :: "user list"
  payouts :: "payout list"
  creditTransactions :: "creditTransaction list"

text \<open>
  The world a handler runs in: the store; the failures the store will answer its next
  calls with (one entry per call, \<open>Some m\<close> a failure with message \<open>m\<close>, no entry left
  meaning no failure); and the paths whose cached view was invalidated by
  \<open>revalidatePath\<close>.
\<close>

record world =
  db :: store
  faults :: "string option list"
  revalidated :: "string list"

type_synonym 'a action = "world \<Rightarrow> (js_error + 'a) \<times> world"

definition return_act :: "'a \<Rightarrow> 'a action" where
  "return_act x w = (Inr x, w)"

definition throw :: "js_error \<Rightarrow> 'a action" where
  "throw e w = (Inl e, w)"

text \<open>\<open>await m; f\<close>: an error of \<open>m\<close> skips \<open>f\<close>.\<close>

definition bind_act :: "'a action \<Rightarrow> ('a \<Rightarrow> 'b action) \<Rightarrow> 'b action" where
  "bind_act m f w = (case m w of (Inl e, w') \<Rightarrow> (Inl e, w') | (Inr x, w') \<Rightarrow> f x w')"

text \<open>\<open>try { m } catch (error) { h }\<close>.\<close>

definition try_catch :: "'a action \<Rightarrow> (js_error \<Rightarrow> 'a action) \<Rightarrow> 'a action" where
  "try_catch m h w = (case m w of (Inl e, w') \<Rightarrow> h e w' | (Inr x, w') \<Rightarrow> (Inr x, w'))"

text \<open>An expression that may throw, evaluated inside a handler.\<close>

definition eval_act :: "js_error + 'a \<Rightarrow> 'a action" where
  "eval_act r w = (r, w)"

text \<open>One call to the store: it fails when the next entry of \<open>faults\<close> says so.\<close>

definition store_call :: "unit action" where
  "store_call w =
     (case faults w of
        [] \<Rightarrow> (Inr (), w)
      | None # fs \<Rightarrow> (Inr (), w\<lparr>faults := fs\<rparr>)
      | Some m # fs \<Rightarrow> (Inl (Error m), w\<lparr>faults := fs\<rparr>))"

text \<open>
  \<open>db.$transaction(async (tx) => body)\<close>, an interactive transaction: when the body
  throws, its writes are rolled back and the error is thrown on; otherwise they are
  committed. Opening and committing the transaction are not counted among the store
  calls that \<open>faults\<close> can fail.
\<close>

definition transaction :: "'a action \<Rightarrow> 'a action" where
  "transaction body w =
     (case body w of
        (Inl e, w') \<Rightarrow> (Inl e, w'\<lparr>db := db w\<rparr>)
      | (Inr x, w') \<Rightarrow> (Inr x, w'))"

definition revalidatePath :: "string \<Rightarrow> unit action" where
  "revalidatePath p w = (Inr (), w\<lparr>revalidated := revalidated w @ [p]\<rparr>)"

text \<open>The messages of the store client's own errors (abridged).\<close>

definition record_not_found :: js_error where
  "record_not_found = Error ''Record to update not found.''"

definition invalid_argument :: js_error where
  "invalid_argument = Error ''Invalid invocation: argument missing or of the wrong type.''"

subsection \<open>The store client's calls\<close>

text \<open>\<open>db.user.findUnique({ where: { clerkUserId } })\<close>: the user, or null.\<close>

definition user_findUnique :: "string \<Rightarrow> user option action" where
  "user_findUnique cid =
     bind_act store_call (\<lambda>_ w. (Inr (find (\<lambda>u. clerkUserId u = cid) (users (db w))), w))"

text \<open>
  \<open>db.user.findMany({ where, orderBy })\<close>: every user the filter keeps, in the order
  asked for.
\<close>

definition user_findMany :: "(user \<Rightarrow> bool) \<Rightarrow> (user list \<Rightarrow> user list) \<Rightarrow> user list action" where
  "user_findMany keep order =
     bind_act store_call (\<lambda>_ w. (Inr (order (filter keep (users (db w)))), w))"

definition createdAt_desc :: "user list \<Rightarrow> user list" where
  "createdAt_desc us = sort_key (\<lambda>u. - user_createdAt u) us"

definition name_asc :: "user list \<Rightarrow> user list" where
  "name_asc us = sort_key user_name us"

text \<open>
  \<open>db.user.update({ where: { id }, data: { verificationStatus } })\<close>: throws when no
  user has the id.
\<close>

definition user_update_status :: "string \<Rightarrow> string \<Rightarrow> unit action" where
  "user_update_status lid st =
     bind_act store_call (\<lambda>_ w.
       if find (\<lambda>u. user_id u = lid) (users (db w)) = None then (Inl record_not_found, w)
       else (Inr (),
         w\<lparr>db := (db w)\<lparr>users :=
           map (\<lambda>u. if user_id u = lid then u\<lparr>verificationStatus := st\<rparr> else u) (users (db w))\<rparr>\<rparr>))"

text \<open>
  What the client returns for a user and for a payout. A payout comes with its scalar
  columns and, when the query asks for it, the relation \<open>lawyer\<close> (the name both payout
  queries give it): the owning user, found through the owner column.
\<close>

definition user_obj :: "user \<Rightarrow> jsval" where
  "user_obj u = JObj
     [(''id'', JStr (user_id u)), (''clerkUserId'', JStr (clerkUserId u)),
      (''role'', JStr (role u)), (''verificationStatus'', JStr (verificationStatus u)),
      (''credits'', JNum (user_credits u)), (''name'', JStr (user_name u)),
      (''email'', JStr (email u)), (''specialty'', JStr (specialty u)),
      (''createdAt'', JNum (user_createdAt u))]"

definition lawyer_select :: "user \<Rightarrow> jsval" where
  "lawyer_select u = JObj
     [(''id'', JStr (user_id u)), (''name'', JStr (user_name u)), (''email'', JStr (email u)),
      (''specialty'', JStr (specialty u)), (''credits'', JNum (user_credits u))]"

definition payout_obj :: "payout \<Rightarrow> jsval \<Rightarrow> jsval" where
  "payout_obj p l = JObj
     [(''id'', JStr (payout_id p)), (''doctorId'', JStr (doctorId p)),
      (''credits'', JNum (payout_credits p)), (''status'', JStr (payout_status p)),
      (''createdAt'', JNum (payout_createdAt p)),
      (''processedAt'', (case processedAt p of None \<Rightarrow> JNull | Some t \<Rightarrow> JNum t)),
      (''processedBy'', (case processedBy p of None \<Rightarrow> JNull | Some a \<Rightarrow> JStr a)),
      (''lawyer'', l)]"

definition include_lawyer :: "(user \<Rightarrow> jsval) \<Rightarrow> store \<Rightarrow> payout \<Rightarrow> jsval" where
  "include_lawyer view s p =
     payout_obj p (case find (\<lambda>u. user_id u = doctorId p) (users s) of
                     None \<Rightarrow> JNull | Some u \<Rightarrow> view u)"

text \<open>
  \<open>db.payout.findMany({ where: { status: "PROCESSING" }, include: { lawyer: { select } },
  orderBy: { createdAt: "desc" } })\<close>.
\<close>

definition payout_findMany :: "jsval list action" where
  "payout_findMany =
     bind_act store_call (\<lambda>_ w.
       (Inr (map (include_lawyer lawyer_select (db w))
               (sort_key (\<lambda>p. - payout_createdAt p)
                  (filter (\<lambda>p. payout_status p = ''PROCESSING'') (payouts (db w))))), w))"

text \<open>
  \<open>db.payout.findUnique({ where: { id, status: "PROCESSING" }, include: { lawyer: true } })\<close>:
  the payout with its \<open>lawyer\<close>, or null.
\<close>

definition payout_findUnique :: "string \<Rightarrow> jsval action" where
  "payout_findUnique pid =
     bind_act store_call (\<lambda>_ w.
       (Inr (case find (\<lambda>p. payout_id p = pid \<and> payout_status p = ''PROCESSING'') (payouts (db w)) of
               None \<Rightarrow> JNull
             | Some p \<Rightarrow> include_lawyer user_obj (db w) p), w))"

text \<open>
  \<open>tx.payout.update({ where: { id }, data: { status: "PROCESSED", processedAt, processedBy } })\<close>.
\<close>

definition payout_update_processed :: "string \<Rightarrow> int \<Rightarrow> string \<Rightarrow> unit action" where
  "payout_update_processed pid now who =
     bind_act store_call (\<lambda>_ w.
       if find (\<lambda>p. payout_id p = pid) (payouts (db w)) = None then (Inl record_not_found, w)
       else (Inr (),
         w\<lparr>db := (db w)\<lparr>payouts :=
           map (\<lambda>p. if payout_id p = pid
                     then p\<lparr>payout_status := ''PROCESSED'', processedAt := Some now, processedBy := Some who\<rparr>
                     else p) (payouts (db w))\<rparr>\<rparr>))"

text \<open>
  \<open>tx.user.update({ where: { id }, data: { credits: { decrement } } })\<close>. The id and the
  amount are what the handler read from the fetched payout; the client refuses an id that
  is not a string and an amount that is not a number before it calls the store.
\<close>

definition user_update_decrement :: "jsval \<Rightarrow> jsval \<Rightarrow> unit action" where
  "user_update_decrement idv amt =
     (case (idv, amt) of
        (JStr uid, JNum n) \<Rightarrow>
          bind_act store_call (\<lambda>_ w.
            if find (\<lambda>u. user_id u = uid) (users (db w)) = None then (Inl record_not_found, w)
            else (Inr (),
              w\<lparr>db := (db w)\<lparr>users :=
                map (\<lambda>u. if user_id u = uid then u\<lparr>user_credits := user_credits u - n\<rparr> else u)
                  (users (db w))\<rparr>\<rparr>))
      | _ \<Rightarrow> throw invalid_argument)"

text \<open>
  \<open>tx.creditTransaction.create({ data: { userId, amount, type } })\<close>: the ledger is
  appended to. The client refuses a user id that is not a string and an amount that is
  not an integer.
\<close>

definition creditTransaction_create :: "jsval \<Rightarrow> jsval \<Rightarrow> string \<Rightarrow> unit action" where
  "creditTransaction_create idv amt ty =
     (case (idv, amt) of
        (JStr uid, JNum n) \<Rightarrow>
          bind_act store_call (\<lambda>_ w.
            (Inr (),
              w\<lparr>db := (db w)\<lparr>creditTransactions :=
                creditTransactions (db w) @ [\<lparr>ct_userId = uid, ct_amount = n, ct_type = ty\<rparr>]\<rparr>\<rparr>))
      | _ \<Rightarrow> throw invalid_argument)"

subsection \<open>The handlers\<close>

text \<open>
  \<open>auth()\<close>, the call to the identity provider. For one request it answers the same
  every time it is awaited: it rejects with an error, or it resolves to the caller's
  subject id, null for a request without a session. That answer is the handlers' first
  argument, \<open>caller\<close>.
\<close>

type_synonym auth_result = "js_error + string option"

definition auth :: "auth_result \<Rightarrow> string option action" where
  "auth caller w = (caller, w)"

text \<open>
  \<open>verifyAdmin\<close>. \<open>await auth()\<close> stands before the \<open>try\<close>, so its rejection is not
  caught. \<open>!userId\<close> holds for null and for the empty string.
\<close>

definition verifyAdmin :: "auth_result \<Rightarrow> bool action" where
  "verifyAdmin caller =
     bind_act (auth caller) (\<lambda>session.
       case session of
         None \<Rightarrow> return_act False
       | Some userId \<Rightarrow>
           if userId = [] then return_act False
           else try_catch
                  (bind_act (user_findUnique userId) (\<lambda>user.
                     return_act (case user of None \<Rightarrow> False | Some u \<Rightarrow> role u = ''ADMIN'')))
                  (\<lambda>error. return_act False))"

text \<open>What a handler returns.\<close>

datatype response =
    Doctors "user list"
  | Lawyers "user list"
  | Payouts "jsval list"
  | ErrorValue string
  | Success

definition getPendingDoctors :: "auth_result \<Rightarrow> response action" where
  "getPendingDoctors caller =
     bind_act (verifyAdmin caller) (\<lambda>isAdmin.
       if \<not> isAdmin then throw (Error ''Unauthorized'')
       else try_catch
              (bind_act
                 (user_findMany (\<lambda>u. role u = ''LAWYER'' \<and> verificationStatus u = ''PENDING'')
                    createdAt_desc)
                 (\<lambda>pendingLawyers. return_act (Doctors pendingLawyers)))
              (\<lambda>error. throw (Error ''Failed to fetch pending lawyers'')))"

definition getVerifiedLawyers :: "auth_result \<Rightarrow> response action" where
  "getVerifiedLawyers caller =
     bind_act (verifyAdmin caller) (\<lambda>isAdmin.
       if \<not> isAdmin then throw (Error ''Unauthorized'')
       else try_catch
              (bind_act
                 (user_findMany (\<lambda>u. role u = ''LAWYER'' \<and> verificationStatus u = ''VERIFIED'')
                    name_asc)
                 (\<lambda>verifiedLawyers. return_act (Lawyers verifiedLawyers)))
              (\<lambda>error. return_act (ErrorValue ''Failed to fetch verified lawyers'')))"

text \<open>
  The submitted form, with text fields only: \<open>formData.get(k)\<close> is the first value sent
  under \<open>k\<close>, or null. \<open>!v\<close> holds for null and for the empty string.
\<close>

type_synonym form_data = "(string \<times> string) list"

definition formData_get :: "form_data \<Rightarrow> string \<Rightarrow> string option" where
  "formData_get formData k = map_of formData k"

definition updateLawyerStatus :: "auth_result \<Rightarrow> form_data \<Rightarrow> response action" where
  "updateLawyerStatus caller formData =
     bind_act (verifyAdmin caller) (\<lambda>isAdmin.
       if \<not> isAdmin then throw (Error ''Unauthorized'')
       else
         (case (formData_get formData ''lawyerId'', formData_get formData ''status'') of
            (Some lawyerId, Some st) \<Rightarrow>
              if lawyerId = [] \<or> st \<notin> set [''VERIFIED'', ''REJECTED'']
              then throw (Error ''Invalid input'')
              else try_catch
                     (bind_act (user_update_status lawyerId st) (\<lambda>_.
                      bind_act (revalidatePath ''/admin'') (\<lambda>_.
                      return_act Success)))
                     (\<lambda>error. throw (Error (''Failed to update lawyer status: '' @ message error)))
          | _ \<Rightarrow> throw (Error ''Invalid input'')))"

definition updateLawyerActiveStatus :: "auth_result \<Rightarrow> form_data \<Rightarrow> response action" where
  "updateLawyerActiveStatus caller formData =
     bind_act (verifyAdmin caller) (\<lambda>isAdmin.
       if \<not> isAdmin then throw (Error ''Unauthorized'')
       else
         (let suspend = (formData_get formData ''suspend'' = Some ''true'') in
          case formData_get formData ''lawyerId'' of
            None \<Rightarrow> throw (Error ''LAWYER ID is required'')
          | Some lawyerId \<Rightarrow>
              if lawyerId = [] then throw (Error ''LAWYER ID is required'')
              else try_catch
                     (let st = (if suspend then ''PENDING'' else ''VERIFIED'') in
                      bind_act (user_update_status lawyerId st) (\<lambda>_.
                      bind_act (revalidatePath ''/admin'') (\<lambda>_.
                      return_act Success)))
                     (\<lambda>error. throw (Error (''Failed to update lawyer status: '' @ message error)))))"

definition getPendingPayouts :: "auth_result \<Rightarrow> response action" where
  "getPendingPayouts caller =
     bind_act (verifyAdmin caller) (\<lambda>isAdmin.
       if \<not> isAdmin then throw (Error ''Unauthorized'')
       else try_catch
              (bind_act payout_findMany (\<lambda>pendingPayouts. return_act (Payouts pendingPayouts)))
              (\<lambda>error. throw (Error ''Failed to fetch pending payouts'')))"

text \<open>\<open>admin?.id || "unknown"\<close>.\<close>

definition processedBy_value :: "user option \<Rightarrow> string" where
  "processedBy_value admin =
     (case admin of
        None \<Rightarrow> ''unknown''
      | Some a \<Rightarrow> if user_id a = [] then ''unknown'' else user_id a)"

text \<open>
  The callback given to \<open>db.$transaction\<close> by \<open>approvePayout\<close>: its three writes, in
  order. \<open>payout\<close> is the object fetched before, \<open>now\<close> what \<open>new Date()\<close> gives.
\<close>

definition approve_tx :: "string \<Rightarrow> user option \<Rightarrow> jsval \<Rightarrow> int \<Rightarrow> unit action" where
  "approve_tx payoutId admin payout now =
     bind_act (payout_update_processed payoutId now (processedBy_value admin)) (\<lambda>_.
     bind_act (eval_act (get_prop payout ''doctorId'')) (\<lambda>owner.
     bind_act (eval_act (get_prop payout ''credits'')) (\<lambda>requested.
     bind_act (user_update_decrement owner requested) (\<lambda>_.
     creditTransaction_create owner (js_neg requested) ''ADMIN_ADJUSTMENT''))))"

text \<open>
  The \<open>try\<close> block of \<open>approvePayout\<close>. Its \<open>auth()\<close> is awaited inside the \<open>try\<close>;
  a null \<open>clerkUserId\<close> would be refused by the client.
  The fetched payout carries the relation as \<open>lawyer\<close>, the name the query includes it
  under; the handler reads \<open>payout.doctor.credits\<close>, the left operand of \<open><\<close> first.
\<close>

definition approvePayout_try :: "auth_result \<Rightarrow> int \<Rightarrow> string \<Rightarrow> response action" where
  "approvePayout_try caller now payoutId =
     bind_act (auth caller) (\<lambda>session.
     bind_act (case session of
                 None \<Rightarrow> throw invalid_argument
               | Some userId \<Rightarrow> user_findUnique userId) (\<lambda>admin.
     bind_act (payout_findUnique payoutId) (\<lambda>payout.
       if js_not payout
       then throw (Error ''Payout request not found or already processed'')
       else
         bind_act (eval_act (get_prop payout ''doctor'')) (\<lambda>doctor.
         bind_act (eval_act (get_prop doctor ''credits'')) (\<lambda>doctor_credits.
         bind_act (eval_act (get_prop payout ''credits'')) (\<lambda>requested.
           if js_lt doctor_credits requested
           then throw (Error ''lawyer doesn't have enough credits for this payout'')
           else
             bind_act (transaction (approve_tx payoutId admin payout now)) (\<lambda>_.
             bind_act (revalidatePath ''/admin'') (\<lambda>_.
             return_act Success))))))))"

text \<open>\<open>approvePayout\<close>: the checks before the \<open>try\<close>, and its \<open>catch\<close>.\<close>

definition approvePayout :: "auth_result \<Rightarrow> int \<Rightarrow> form_data \<Rightarrow> response action" where
  "approvePayout caller now formData =
     bind_act (verifyAdmin caller) (\<lambda>isAdmin.
       if \<not> isAdmin then throw (Error ''Unauthorized'')
       else
         (case formData_get formData ''payoutId'' of
            None \<Rightarrow> throw (Error ''Payout ID is required'')
          | Some payoutId \<Rightarrow>
              if payoutId = [] then throw (Error ''Payout ID is required'')
              else try_catch (approvePayout_try caller now payoutId)
                     (\<lambda>error. throw (Error (''Failed to approve payout: '' @ message error)))))"

subsection \<open>Vocabulary of the properties\<close>

text \<open>
  \<open>call_fails n w\<close>: the store fails the \<open>n\<close>-th call made from world \<open>w\<close> on, counting
  from 0. For an admin's request, call 0 is the lookup of \<open>verifyAdmin\<close>.
\<close>

definition call_fails :: "nat \<Rightarrow> world \<Rightarrow> bool" where
  "call_fails n w = (case drop n (faults w) of Some m # fs \<Rightarrow> True | _ \<Rightarrow> False)"

text \<open>
  The world after a request by an admin that set the verification status of user \<open>lid\<close>
  to \<open>st\<close>: two store calls were made, the user's status is written and \<open>/admin\<close> is
  invalidated.
\<close>

definition status_updated :: "string \<Rightarrow> string \<Rightarrow> world \<Rightarrow> world" where
  "status_updated lid st w =
     w\<lparr>faults := tl (tl (faults w)),
       db := (db w)\<lparr>users :=
         map (\<lambda>u. if user_id u = lid then u\<lparr>verificationStatus := st\<rparr> else u) (users (db w))\<rparr>,
       revalidated := revalidated w @ [''/admin'']\<rparr>"

text \<open>
  The store after the three writes of an approval: payout \<open>payoutId\<close> processed at \<open>now\<close>
  by admin \<open>who\<close>, \<open>n\<close> credits taken from user \<open>owner\<close>, and one ledger entry of \<open>- n\<close>.
\<close>

definition approval_committed :: "string \<Rightarrow> string \<Rightarrow> int \<Rightarrow> string \<Rightarrow> int \<Rightarrow> store \<Rightarrow> store" where
  "approval_committed payoutId who now owner n s =
     \<lparr>users = map (\<lambda>u. if user_id u = owner then u\<lparr>user_credits := user_credits u - n\<rparr> else u) (users s),
      payouts = map (\<lambda>p. if payout_id p = payoutId
                          then p\<lparr>payout_status := ''PROCESSED'', processedAt := Some now, processedBy := Some who\<rparr>
                          else p) (payouts s),
      creditTransactions = creditTransactions s @ [\<lparr>ct_userId = owner, ct_amount = - n, ct_type = ''ADMIN_ADJUSTMENT''\<rparr>]\<rparr>"

subsection \<open>A concrete store\<close>

text \<open>
  Admin A, provider D with 100 credits, and D's payout requests: P of 50 credits and Q of
  150 credits, both waiting, and R, already processed.
\<close>

definition admin_A :: user where
  "admin_A = \<lparr>user_id = ''A'', clerkUserId = ''clerk_A'', role = ''ADMIN'',
     verificationStatus = ''VERIFIED'', user_credits = 0, user_name = ''Ada'',
     email = ''ada@example.org'', specialty = [], user_createdAt = 1\<rparr>"

definition provider_D :: user where
  "provider_D = \<lparr>user_id = ''D'', clerkUserId = ''clerk_D'', role = ''LAWYER'',
     verificationStatus = ''VERIFIED'', user_credits = 100, user_name = ''Dan'',
     email = ''dan@example.org'', specialty = ''tax'', user_createdAt = 2\<rparr>"

definition payout_P :: payout where
  "payout_P = \<lparr>payout_id = ''P'', doctorId = ''D'', payout_credits = 50,
     payout_status = ''PROCESSING'', payout_createdAt = 3, processedAt = None,
     processedBy = None\<rparr>"

definition payout_Q :: payout where
  "payout_Q = \<lparr>payout_id = ''Q'', doctorId = ''D'', payout_credits = 150,
     payout_status = ''PROCESSING'', payout_createdAt = 4, processedAt = None,
     processedBy = None\<rparr>"

definition payout_R :: payout where
  "payout_R = \<lparr>payout_id = ''R'', doctorId = ''D'', payout_credits = 10,
     payout_status = ''PROCESSED'', payout_createdAt = 2, processedAt = Some 5,
     processedBy = Some ''A''\<rparr>"

definition scenario :: world where
  "scenario = \<lparr>db = \<lparr>users = [admin_A, provider_D], payouts = [payout_P, payout_Q, payout_R],
                      creditTransactions = []\<rparr>,
                faults = [], revalidated = []\<rparr>"

text \<open>The same store, with the failures the next store calls will meet.\<close>

definition scenario_failing :: "string option list \<Rightarrow> world" where
  "scenario_failing fs = scenario\<lparr>faults := fs\<rparr>"

subsection \<open>The store calls and the privilege check, step by step\<close>

lemma store_call_ok:
  "\<not> call_fails 0 w \<Longrightarrow> store_call w = (Inr (), w\<lparr>faults := tl (faults w)\<rparr>)"
  by (auto simp: call_fails_def store_call_def split: list.splits option.splits)

lemma store_call_fail:
  "call_fails 0 w \<Longrightarrow> \<exists>m. store_call w = (Inl (Error m), w\<lparr>faults := tl (faults w)\<rparr>)"
  by (auto simp: call_fails_def store_call_def split: list.splits option.splits)

lemma call_fails_tl [simp]:
  "call_fails n (w\<lparr>faults := tl (faults w)\<rparr>) = call_fails (Suc n) w"
  by (simp add: call_fails_def drop_Suc)

lemma call_fails_db [simp]: "call_fails n (w\<lparr>db := d\<rparr>) = call_fails n w"
  by (simp add: call_fails_def)

lemma call_fails_revalidated [simp]: "call_fails n (w\<lparr>revalidated := r\<rparr>) = call_fails n w"
  by (simp add: call_fails_def)

lemma user_findUnique_ok:
  "\<not> call_fails 0 w \<Longrightarrow>
   user_findUnique cid w =
     (Inr (find (\<lambda>u. clerkUserId u = cid) (users (db w))), w\<lparr>faults := tl (faults w)\<rparr>)"
  by (simp add: user_findUnique_def bind_act_def store_call_ok)

lemma user_findUnique_fail:
  "call_fails 0 w \<Longrightarrow>
   \<exists>m. user_findUnique cid w = (Inl (Error m), w\<lparr>faults := tl (faults w)\<rparr>)"
  using store_call_fail [of w] by (auto simp: user_findUnique_def bind_act_def)

lemma verifyAdmin_rejected: "verifyAdmin (Inl e) w = (Inl e, w)"
  by (simp add: verifyAdmin_def auth_def bind_act_def)

lemma verifyAdmin_result:
  "verifyAdmin (Inr session) w =
     (Inr (\<exists>userId u. session = Some userId \<and> userId \<noteq> [] \<and> \<not> call_fails 0 w \<and>
             find (\<lambda>u. clerkUserId u = userId) (users (db w)) = Some u \<and> role u = ''ADMIN''),
      if session = None \<or> session = Some [] then w else w\<lparr>faults := tl (faults w)\<rparr>)"
proof (cases session)
  case None
  then show ?thesis by (simp add: verifyAdmin_def auth_def bind_act_def return_act_def)
next
  case (Some userId)
  show ?thesis
  proof (cases "userId = []")
    case True
    with Some show ?thesis by (simp add: verifyAdmin_def auth_def bind_act_def return_act_def)
  next
    case False
    show ?thesis
    proof (cases "call_fails 0 w")
      case True
      then obtain m where "user_findUnique userId w = (Inl (Error m), w\<lparr>faults := tl (faults w)\<rparr>)"
        using user_findUnique_fail by blast
      with Some False True show ?thesis
        by (simp add: verifyAdmin_def auth_def try_catch_def bind_act_def return_act_def)
    next
      case ok: False
      with Some False show ?thesis
        by (auto simp: verifyAdmin_def auth_def try_catch_def bind_act_def return_act_def
            user_findUnique_ok split: option.splits)
    qed
  qed
qed

lemma verifyAdmin_db: "db (snd (verifyAdmin caller w)) = db w"
  by (cases caller) (simp_all add: verifyAdmin_result verifyAdmin_rejected)

lemma verifyAdmin_revalidated: "revalidated (snd (verifyAdmin caller w)) = revalidated w"
  by (cases caller) (simp_all add: verifyAdmin_result verifyAdmin_rejected)

lemma verifyAdmin_answered:
  assumes "fst (verifyAdmin caller w) = Inr b"
  obtains session where "caller = Inr session"
  using assms by (cases caller) (simp_all add: verifyAdmin_rejected)

lemma find_unique_key:
  "distinct (map f xs) \<Longrightarrow> find (\<lambda>x. f x = k) xs = Some y \<longleftrightarrow> y \<in> set xs \<and> f y = k"
  by (induction xs) force+

lemma not_admin_bind:
  "fst (verifyAdmin caller w) = Inr False \<Longrightarrow>
   bind_act (verifyAdmin caller) (\<lambda>isAdmin. if \<not> isAdmin then throw e else g) w =
     (Inl e, snd (verifyAdmin caller w))"
  by (cases "verifyAdmin caller w") (simp add: bind_act_def throw_def)

lemma admin_bind:
  assumes "fst (verifyAdmin caller w) = Inr True"
  shows "bind_act (verifyAdmin caller) (\<lambda>isAdmin. if \<not> isAdmin then throw e else g) w =
           g (w\<lparr>faults := tl (faults w)\<rparr>)"
    and "\<not> call_fails 0 w"
    and "\<exists>userId a. caller = Inr (Some userId) \<and> userId \<noteq> [] \<and>
           find (\<lambda>u. clerkUserId u = userId) (users (db w)) = Some a \<and> role a = ''ADMIN''"
    and "snd (verifyAdmin caller w) = w\<lparr>faults := tl (faults w)\<rparr>"
proof -
  from assms obtain session where c: "caller = Inr session" by (rule verifyAdmin_answered)
  with assms have *: "\<exists>userId u. session = Some userId \<and> userId \<noteq> [] \<and> \<not> call_fails 0 w \<and>
             find (\<lambda>u. clerkUserId u = userId) (users (db w)) = Some u \<and> role u = ''ADMIN''"
    by (simp add: verifyAdmin_result)
  then show "\<not> call_fails 0 w" by blast
  from * c show "\<exists>userId a. caller = Inr (Some userId) \<and> userId \<noteq> [] \<and>
           find (\<lambda>u. clerkUserId u = userId) (users (db w)) = Some a \<and> role a = ''ADMIN''"
    by blast
  from * c have r: "verifyAdmin caller w = (Inr True, w\<lparr>faults := tl (faults w)\<rparr>)"
    unfolding c verifyAdmin_result by auto
  then show "bind_act (verifyAdmin caller) (\<lambda>isAdmin. if \<not> isAdmin then throw e else g) w =
           g (w\<lparr>faults := tl (faults w)\<rparr>)"
    by (simp add: bind_act_def)
  from r show "snd (verifyAdmin caller w) = w\<lparr>faults := tl (faults w)\<rparr>" by simp
qed

lemma user_findMany_ok:
  "\<not> call_fails 0 w \<Longrightarrow>
   user_findMany keep order w =
     (Inr (order (filter keep (users (db w)))), w\<lparr>faults := tl (faults w)\<rparr>)"
  by (simp add: user_findMany_def bind_act_def store_call_ok)

lemma user_findMany_fail:
  "call_fails 0 w \<Longrightarrow>
   \<exists>m. user_findMany keep order w = (Inl (Error m), w\<lparr>faults := tl (faults w)\<rparr>)"
  using store_call_fail [of w] by (auto simp: user_findMany_def bind_act_def)

subsection \<open>Status updates\<close>

lemma find_after_status_update:
  "find (\<lambda>u. user_id u = lid) us = Some u \<Longrightarrow>
   find (\<lambda>u. user_id u = lid)
     (map (\<lambda>u. if user_id u = lid then u\<lparr>verificationStatus := st\<rparr> else u) us) =
   Some (u\<lparr>verificationStatus := st\<rparr>)"
  by (induction us) (auto split: if_splits)

lemma find_clerk_after_status_update:
  "find (\<lambda>u. clerkUserId u = c)
     (map (\<lambda>u. if user_id u = lid then u\<lparr>verificationStatus := st\<rparr> else u) us) =
   map_option (\<lambda>u. if user_id u = lid then u\<lparr>verificationStatus := st\<rparr> else u)
     (find (\<lambda>u. clerkUserId u = c) us)"
  by (induction us) auto

lemma user_update_status_ok:
  assumes "\<not> call_fails 0 w" and "find (\<lambda>u. user_id u = lid) (users (db w)) = Some u"
  shows "user_update_status lid st w =
           (Inr (), w\<lparr>faults := tl (faults w),
                      db := (db w)\<lparr>users :=
                        map (\<lambda>u. if user_id u = lid then u\<lparr>verificationStatus := st\<rparr> else u)
                          (users (db w))\<rparr>\<rparr>)"
  using assms by (simp add: user_update_status_def bind_act_def store_call_ok)

lemma status_update_run:
  assumes "\<not> call_fails 1 w" and "find (\<lambda>u. user_id u = lid) (users (db w)) = Some u"
  shows "try_catch
           (bind_act (user_update_status lid st) (\<lambda>_.
            bind_act (revalidatePath ''/admin'') (\<lambda>_. return_act Success))) h
           (w\<lparr>faults := tl (faults w)\<rparr>) = (Inr Success, status_updated lid st w)"
proof -
  let ?w1 = "w\<lparr>faults := tl (faults w)\<rparr>"
  have "\<not> call_fails 0 ?w1" using assms(1) by simp
  moreover have "find (\<lambda>u. user_id u = lid) (users (db ?w1)) = Some u" using assms(2) by simp
  ultimately show ?thesis
    by (simp add: user_update_status_ok [where u = u] try_catch_def bind_act_def
        revalidatePath_def return_act_def status_updated_def)
qed

lemma updateLawyerActiveStatus_run:
  assumes admin: "fst (verifyAdmin caller w) = Inr True"
    and ok: "\<not> call_fails 1 w"
    and lid: "formData_get formData ''lawyerId'' = Some lid" "lid \<noteq> []"
    and u: "find (\<lambda>u. user_id u = lid) (users (db w)) = Some u"
  shows "updateLawyerActiveStatus caller formData w =
           (Inr Success,
            status_updated lid
              (if formData_get formData ''suspend'' = Some ''true'' then ''PENDING'' else ''VERIFIED'') w)"
  unfolding updateLawyerActiveStatus_def admin_bind(1) [OF admin]
  using lid by (simp add: Let_def status_update_run [OF ok u])

lemma status_updated_find:
  "find (\<lambda>u. user_id u = lid) (users (db w)) = Some u \<Longrightarrow>
   find (\<lambda>u. user_id u = lid) (users (db (status_updated lid st w))) =
     Some (u\<lparr>verificationStatus := st\<rparr>)"
  by (simp add: status_updated_def find_after_status_update)

lemma status_updated_admin:
  assumes "fst (verifyAdmin caller w) = Inr True" and "\<not> call_fails 2 w"
  shows "fst (verifyAdmin caller (status_updated lid st w)) = Inr True"
proof -
  from admin_bind(3) [OF assms(1)] obtain userId a where
    a: "caller = Inr (Some userId)" "userId \<noteq> []"
       "find (\<lambda>u. clerkUserId u = userId) (users (db w)) = Some a" "role a = ''ADMIN''"
    by blast
  have "\<not> call_fails 0 (status_updated lid st w)"
    using assms(2) by (simp add: status_updated_def call_fails_def drop_Suc numeral_2_eq_2)
  then show ?thesis
    using a by (simp add: verifyAdmin_result status_updated_def find_clerk_after_status_update)
qed

lemma status_updated_call_fails:
  "call_fails n (status_updated lid st w) = call_fails (Suc (Suc n)) w"
  by (simp add: status_updated_def call_fails_def drop_Suc)

subsection \<open>Payout approval\<close>

lemma payout_findUnique_ok:
  "\<not> call_fails 0 w \<Longrightarrow>
   payout_findUnique pid w =
     (Inr (case find (\<lambda>p. payout_id p = pid \<and> payout_status p = ''PROCESSING'') (payouts (db w)) of
             None \<Rightarrow> JNull
           | Some p \<Rightarrow> include_lawyer user_obj (db w) p), w\<lparr>faults := tl (faults w)\<rparr>)"
  by (simp add: payout_findUnique_def bind_act_def store_call_ok split: option.splits)

lemma payout_findUnique_fail:
  "call_fails 0 w \<Longrightarrow>
   \<exists>m. payout_findUnique pid w = (Inl (Error m), w\<lparr>faults := tl (faults w)\<rparr>)"
  using store_call_fail [of w] by (auto simp: payout_findUnique_def bind_act_def)

lemma fetched_payout_is_object: "js_not (include_lawyer view s p) = False"
  by (simp add: include_lawyer_def payout_obj_def)

lemma fetched_payout_has_no_doctor: "get_prop (include_lawyer view s p) ''doctor'' = Inr JUndefined"
  by (simp add: include_lawyer_def payout_obj_def)

lemma approvePayout_try_not_found:
  assumes "caller = Inr (Some userId)" and "\<not> call_fails 0 w" and "\<not> call_fails 1 w"
    and "find (\<lambda>p. payout_id p = pid \<and> payout_status p = ''PROCESSING'') (payouts (db w)) = None"
  shows "approvePayout_try caller now pid w =
           (Inl (Error ''Payout request not found or already processed''),
            w\<lparr>faults := tl (tl (faults w))\<rparr>)"
proof -
  let ?w1 = "w\<lparr>faults := tl (faults w)\<rparr>"
  have "\<not> call_fails 0 ?w1" using assms(3) by simp
  then show ?thesis
    using assms
    by (simp add: approvePayout_try_def auth_def bind_act_def user_findUnique_ok payout_findUnique_ok
        throw_def)
qed

lemma approvePayout_try_found:
  assumes "caller = Inr (Some userId)" and "\<not> call_fails 0 w" and "\<not> call_fails 1 w"
    and "find (\<lambda>p. payout_id p = pid \<and> payout_status p = ''PROCESSING'') (payouts (db w)) = Some p"
  shows "approvePayout_try caller now pid w =
           (Inl (TypeError ''Cannot read properties of undefined (reading 'credits')''),
            w\<lparr>faults := tl (tl (faults w))\<rparr>)"
proof -
  let ?w1 = "w\<lparr>faults := tl (faults w)\<rparr>"
  have "\<not> call_fails 0 ?w1" using assms(3) by simp
  then show ?thesis
    using assms
    by (simp add: approvePayout_try_def auth_def bind_act_def user_findUnique_ok payout_findUnique_ok
        eval_act_def fetched_payout_is_object fetched_payout_has_no_doctor)
qed

lemma approvePayout_try_fails:
  "\<exists>e. fst (approvePayout_try caller now pid w) = Inl e \<and>
       db (snd (approvePayout_try caller now pid w)) = db w \<and>
       revalidated (snd (approvePayout_try caller now pid w)) = revalidated w"
proof (cases caller)
  case (Inl e)
  then show ?thesis by (simp add: approvePayout_try_def auth_def bind_act_def)
next
  case (Inr session)
  show ?thesis
  proof (cases session)
    case None
    with Inr show ?thesis by (simp add: approvePayout_try_def auth_def bind_act_def throw_def)
  next
    case (Some userId)
    with Inr have Some: "caller = Inr (Some userId)" by simp
    show ?thesis
    proof (cases "call_fails 0 w")
      case True
      then obtain m where "user_findUnique userId w = (Inl (Error m), w\<lparr>faults := tl (faults w)\<rparr>)"
        using user_findUnique_fail by blast
      with Some show ?thesis by (simp add: approvePayout_try_def auth_def bind_act_def)
    next
      case ok0: False
      let ?w1 = "w\<lparr>faults := tl (faults w)\<rparr>"
      show ?thesis
      proof (cases "call_fails 1 w")
        case True
        then have "call_fails 0 ?w1" by simp
        then obtain m where "payout_findUnique pid ?w1 = (Inl (Error m), ?w1\<lparr>faults := tl (faults ?w1)\<rparr>)"
          using payout_findUnique_fail by blast
        with Some ok0 show ?thesis
          by (simp add: approvePayout_try_def auth_def bind_act_def user_findUnique_ok)
      next
        case ok1: False
        show ?thesis
        proof (cases "find (\<lambda>p. payout_id p = pid \<and> payout_status p = ''PROCESSING'') (payouts (db w))")
          case None
          show ?thesis by (simp add: approvePayout_try_not_found [OF Some ok0 ok1 None])
        next
          case found: (Some p)
          show ?thesis by (simp add: approvePayout_try_found [OF Some ok0 ok1 found])
        qed
      qed
    qed
  qed
qed

lemma approvePayout_fails:
  "\<exists>e. fst (approvePayout caller now formData w) = Inl e \<and>
       db (snd (approvePayout caller now formData w)) = db w \<and>
       revalidated (snd (approvePayout caller now formData w)) = revalidated w"
proof (cases "fst (verifyAdmin caller w) = Inr True")
  case False
  show ?thesis
  proof (cases caller)
    case (Inl e)
    then show ?thesis
      by (simp add: approvePayout_def bind_act_def verifyAdmin_rejected)
  next
    case (Inr session)
    with False have na: "fst (verifyAdmin caller w) = Inr False" by (simp add: verifyAdmin_result)
    show ?thesis
      unfolding approvePayout_def not_admin_bind [OF na]
      by (simp add: verifyAdmin_db verifyAdmin_revalidated)
  qed
next
  case True
  let ?w1 = "w\<lparr>faults := tl (faults w)\<rparr>"
  show ?thesis
  proof (cases "formData_get formData ''payoutId''")
    case None
    then show ?thesis
      unfolding approvePayout_def admin_bind(1) [OF True] by (simp add: throw_def)
  next
    case (Some pid)
    show ?thesis
    proof (cases "pid = []")
      case True
      with Some show ?thesis
        unfolding approvePayout_def admin_bind(1) [OF \<open>fst (verifyAdmin caller w) = Inr True\<close>]
        by (simp add: throw_def)
    next
      case False
      obtain e where e: "fst (approvePayout_try caller now pid ?w1) = Inl e"
        "db (snd (approvePayout_try caller now pid ?w1)) = db ?w1"
        "revalidated (snd (approvePayout_try caller now pid ?w1)) = revalidated ?w1"
        using approvePayout_try_fails [of caller now pid ?w1] by blast
      with Some False show ?thesis
        unfolding approvePayout_def admin_bind(1) [OF True]
        by (cases "approvePayout_try caller now pid ?w1") (simp add: try_catch_def throw_def)
    qed
  qed
qed

lemma approvePayout_found:
  assumes admin: "fst (verifyAdmin caller w) = Inr True"
    and pid: "formData_get formData ''payoutId'' = Some pid" "pid \<noteq> []"
    and ok: "\<not> call_fails 1 w" "\<not> call_fails 2 w"
    and p: "find (\<lambda>p. payout_id p = pid \<and> payout_status p = ''PROCESSING'') (payouts (db w)) = Some p"
  shows "approvePayout caller now formData w =
           (Inl (Error ''Failed to approve payout: Cannot read properties of undefined (reading 'credits')''),
            w\<lparr>faults := tl (tl (tl (faults w)))\<rparr>)"
proof -
  let ?w1 = "w\<lparr>faults := tl (faults w)\<rparr>"
  from admin_bind(3) [OF admin] obtain userId where c: "caller = Inr (Some userId)" by blast
  have ok1: "\<not> call_fails 0 ?w1" "\<not> call_fails 1 ?w1"
    using ok by (simp_all add: numeral_2_eq_2)
  have p1: "find (\<lambda>p. payout_id p = pid \<and> payout_status p = ''PROCESSING'') (payouts (db ?w1)) = Some p"
    using p by simp
  show ?thesis
    unfolding approvePayout_def admin_bind(1) [OF admin]
    using pid by (simp add: try_catch_def throw_def approvePayout_try_found [OF c ok1 p1])
qed

lemma find_processing_after_mark:
  "find (\<lambda>p. payout_id p = pid \<and> payout_status p = ''PROCESSING'')
     (map (\<lambda>p. if payout_id p = pid
               then p\<lparr>payout_status := ''PROCESSED'', processedAt := a, processedBy := b\<rparr>
               else p) ps) = None"
  by (induction ps) simp_all

lemma approvePayout_not_found_run:
  assumes admin: "fst (verifyAdmin caller w) = Inr True"
    and pid: "formData_get formData ''payoutId'' = Some pid" "pid \<noteq> []"
    and ok: "\<not> call_fails 1 w" "\<not> call_fails 2 w"
    and p: "find (\<lambda>p. payout_id p = pid \<and> payout_status p = ''PROCESSING'') (payouts (db w)) = None"
  shows "approvePayout caller now formData w =
           (Inl (Error ''Failed to approve payout: Payout request not found or already processed''),
            w\<lparr>faults := tl (tl (tl (faults w)))\<rparr>)"
proof -
  let ?w1 = "w\<lparr>faults := tl (faults w)\<rparr>"
  from admin_bind(3) [OF admin] obtain userId where c: "caller = Inr (Some userId)" by blast
  have ok1: "\<not> call_fails 0 ?w1" "\<not> call_fails 1 ?w1"
    using ok by (simp_all add: numeral_2_eq_2)
  have p1: "find (\<lambda>p. payout_id p = pid \<and> payout_status p = ''PROCESSING'') (payouts (db ?w1)) = None"
    using p by simp
  show ?thesis
    unfolding approvePayout_def admin_bind(1) [OF admin]
    using pid by (simp add: try_catch_def throw_def approvePayout_try_not_found [OF c ok1 p1])
qed

subsection \<open>The approval transaction\<close>

lemma transaction_rollback:
  "fst (transaction body w) = Inl e \<Longrightarrow> db (snd (transaction body w)) = db w"
  by (cases "body w") (auto simp: transaction_def split: sum.splits)

lemma store_call_cases:
  "store_call w = (if call_fails 0 w then Inl (Error (the (hd (faults w)))) else Inr (), w\<lparr>faults := tl (faults w)\<rparr>)"
  by (auto simp: store_call_def call_fails_def split: list.splits option.splits)

lemma call_fails_tl_tl [simp]:
  "call_fails n (w\<lparr>faults := tl (tl (faults w))\<rparr>) = call_fails (Suc (Suc n)) w"
  by (simp add: call_fails_def drop_Suc)

lemma bind_act_Inr:
  assumes "bind_act m f w = (Inr y, w'')"
  obtains x w' where "m w = (Inr x, w')" and "f x w' = (Inr y, w'')"
  using assms by (cases "m w") (auto simp: bind_act_def split: sum.splits)

lemma store_call_Inr:
  assumes "store_call w = (Inr x, w')"
  shows "\<not> call_fails 0 w \<and> w' = w\<lparr>faults := tl (faults w)\<rparr>"
  using assms by (auto simp: store_call_cases split: if_splits)

lemma payout_update_processed_Inr:
  assumes "payout_update_processed pid now who w = (Inr x, w')"
  shows "\<not> call_fails 0 w \<and> faults w' = tl (faults w) \<and>
         db w' = (db w)\<lparr>payouts :=
           map (\<lambda>p. if payout_id p = pid
                     then p\<lparr>payout_status := ''PROCESSED'', processedAt := Some now, processedBy := Some who\<rparr>
                     else p) (payouts (db w))\<rparr>"
  using assms unfolding payout_update_processed_def
  by (elim bind_act_Inr) (auto dest!: store_call_Inr split: if_splits)

lemma user_update_decrement_Inr:
  assumes "user_update_decrement idv amt w = (Inr x, w')"
  shows "\<exists>uid n. idv = JStr uid \<and> amt = JNum n \<and> \<not> call_fails 0 w \<and> faults w' = tl (faults w) \<and>
           db w' = (db w)\<lparr>users :=
             map (\<lambda>u. if user_id u = uid then u\<lparr>user_credits := user_credits u - n\<rparr> else u)
               (users (db w))\<rparr>"
proof -
  from assms obtain uid n where v: "idv = JStr uid" "amt = JNum n"
    by (cases idv; cases amt) (simp_all add: user_update_decrement_def throw_def)
  with assms show ?thesis
    unfolding user_update_decrement_def
    by (simp, elim bind_act_Inr) (auto dest!: store_call_Inr split: if_splits)
qed

lemma creditTransaction_create_Inr:
  assumes "creditTransaction_create idv amt ty w = (Inr x, w')"
  shows "\<exists>uid n. idv = JStr uid \<and> amt = JNum n \<and> \<not> call_fails 0 w \<and> faults w' = tl (faults w) \<and>
           db w' = (db w)\<lparr>creditTransactions :=
             creditTransactions (db w) @ [\<lparr>ct_userId = uid, ct_amount = n, ct_type = ty\<rparr>]\<rparr>"
proof -
  from assms obtain uid n where v: "idv = JStr uid" "amt = JNum n"
    by (cases idv; cases amt) (simp_all add: creditTransaction_create_def throw_def)
  with assms show ?thesis
    unfolding creditTransaction_create_def
    by (simp, elim bind_act_Inr) (auto dest!: store_call_Inr)
qed

lemma call_fails_shift:
  "faults w' = tl (faults w) \<Longrightarrow> call_fails n w' = call_fails (Suc n) w"
  by (simp add: call_fails_def drop_Suc)

lemma approve_tx_commit:
  assumes "approve_tx payoutId admin payout now w = (Inr x, w')"
  shows "\<exists>owner n. get_prop payout ''doctorId'' = Inr (JStr owner) \<and>
           get_prop payout ''credits'' = Inr (JNum n) \<and>
           \<not> call_fails 0 w \<and> \<not> call_fails 1 w \<and> \<not> call_fails 2 w \<and>
           db w' = approval_committed payoutId (processedBy_value admin) now owner n (db w)"
proof -
  from assms obtain w1 ownerv w2 requested w3 w4 where
    s1: "payout_update_processed payoutId now (processedBy_value admin) w = (Inr (), w1)"
    and o: "eval_act (get_prop payout ''doctorId'') w1 = (Inr ownerv, w2)"
    and r: "eval_act (get_prop payout ''credits'') w2 = (Inr requested, w3)"
    and s2: "user_update_decrement ownerv requested w3 = (Inr (), w4)"
    and s3: "creditTransaction_create ownerv (js_neg requested) ''ADMIN_ADJUSTMENT'' w4 = (Inr x, w')"
    unfolding approve_tx_def by (elim bind_act_Inr) auto
  from o r have w: "w2 = w1" "w3 = w1"
    and g: "get_prop payout ''doctorId'' = Inr ownerv" "get_prop payout ''credits'' = Inr requested"
    by (auto simp: eval_act_def)
  note p1 = payout_update_processed_Inr [OF s1]
  from user_update_decrement_Inr [OF s2] obtain owner n where
    p2: "ownerv = JStr owner" "requested = JNum n" "\<not> call_fails 0 w3" "faults w4 = tl (faults w3)"
      "db w4 = (db w3)\<lparr>users :=
             map (\<lambda>u. if user_id u = owner then u\<lparr>user_credits := user_credits u - n\<rparr> else u)
               (users (db w3))\<rparr>"
    by blast
  from creditTransaction_create_Inr [OF s3] p2(1,2) have
    p3: "\<not> call_fails 0 w4"
      "db w' = (db w4)\<lparr>creditTransactions :=
             creditTransactions (db w4) @ [\<lparr>ct_userId = owner, ct_amount = - n, ct_type = ''ADMIN_ADJUSTMENT''\<rparr>]\<rparr>"
    by (auto simp: js_neg_def)
  have c1: "\<not> call_fails 1 w"
    using p2(3) w p1 by (simp add: call_fails_shift [of w1 w])
  have c2: "\<not> call_fails 2 w"
    using p3(1) p2(4) w p1
    by (simp add: call_fails_shift [of w4 w1] call_fails_shift [of w1 w] numeral_2_eq_2)
  have "db w' = approval_committed payoutId (processedBy_value admin) now owner n (db w)"
    using p3(2) p2(5) p1 w by (simp add: approval_committed_def)
  with g p2(1,2) p1 c1 c2 show ?thesis by auto
qed

subsection \<open>The concrete store, field by field\<close>

lemma scenario_fields:
  "users (db scenario) = [admin_A, provider_D]"
  "payouts (db scenario) = [payout_P, payout_Q, payout_R]"
  "creditTransactions (db scenario) = []"
  "faults scenario = []"
  "revalidated scenario = []"
  "db (scenario_failing fs) = db scenario"
  "faults (scenario_failing fs) = fs"
  "revalidated (scenario_failing fs) = []"
  by (simp_all add: scenario_def scenario_failing_def)

lemma user_fields:
  "user_id admin_A = ''A''" "clerkUserId admin_A = ''clerk_A''" "role admin_A = ''ADMIN''"
  "user_id provider_D = ''D''" "clerkUserId provider_D = ''clerk_D''" "role provider_D = ''LAWYER''"
  "verificationStatus provider_D = ''VERIFIED''" "user_credits provider_D = 100"
  by (simp_all add: admin_A_def provider_D_def)

lemma payout_fields:
  "payout_id payout_P = ''P''" "payout_status payout_P = ''PROCESSING''"
  "payout_credits payout_P = 50" "doctorId payout_P = ''D''"
  "payout_id payout_Q = ''Q''" "payout_status payout_Q = ''PROCESSING''"
  "payout_credits payout_Q = 150" "doctorId payout_Q = ''D''"
  "payout_id payout_R = ''R''" "payout_status payout_R = ''PROCESSED''"
  by (simp_all add: payout_P_def payout_Q_def payout_R_def)

lemmas scenario_simps = scenario_fields user_fields payout_fields

lemma admin_A_verified:
  "fst (verifyAdmin (Inr (Some ''clerk_A'')) (scenario_failing (None # fs))) = Inr True"
  "fst (verifyAdmin (Inr (Some ''clerk_A'')) scenario) = Inr True"
  by (simp_all add: verifyAdmin_result call_fails_def scenario_simps)

lemma provider_D_found: "find (\<lambda>u. user_id u = ''D'') (users (db scenario)) = Some provider_D"
  by (simp add: scenario_simps)

lemma scenario_reliable: "\<not> call_fails n scenario"
  by (simp add: call_fails_def scenario_simps)

lemma fetched_P:
  "get_prop (include_lawyer user_obj (db scenario) payout_P) ''doctorId'' = Inr (JStr ''D'')"
  "get_prop (include_lawyer user_obj (db scenario) payout_P) ''credits'' = Inr (JNum 50)"
  by (simp_all add: include_lawyer_def payout_obj_def scenario_simps)

section \<open>The claims\<close>

text \<open>
  Claim C1. The claim reads: for a payout in status PROCESSING whose provider holds at least
  the requested credits, an admin's \<open>approvePayout\<close> returns success, marks the payout
  PROCESSED, takes the credits from the provider and writes one ledger entry.

  The handler does not get that far. The payout is fetched with \<open>include: { lawyer: true }\<close>,
  so the object has no property \<open>doctor\<close>, and \<open>payout.doctor.credits\<close> throws a TypeError,
  which the \<open>catch\<close> wraps. For every such payout the call fails with that error, never
  returns success, and leaves the store as it was.
\<close>

theorem approvePayout_sufficient_balance_fails:
  assumes admin: "fst (verifyAdmin caller w) = Inr True"
    and pid: "formData_get formData ''payoutId'' = Some pid" "pid \<noteq> []"
    and ok: "\<not> call_fails 1 w" "\<not> call_fails 2 w"
    and p: "find (\<lambda>p. payout_id p = pid \<and> payout_status p = ''PROCESSING'') (payouts (db w)) = Some p"
    and d: "find (\<lambda>u. user_id u = doctorId p) (users (db w)) = Some d"
    and enough: "payout_credits p \<le> user_credits d"
  shows "fst (approvePayout caller now formData w) =
           Inl (Error ''Failed to approve payout: Cannot read properties of undefined (reading 'credits')'') \<and>
         fst (approvePayout caller now formData w) \<noteq> Inr Success \<and>
         db (snd (approvePayout caller now formData w)) = db w"
  by (simp add: approvePayout_found [OF admin pid ok p])

theorem approvePayout_sufficient_balance_fails_witness:
  "fst (verifyAdmin (Inr (Some ''clerk_A'')) scenario) = Inr True \<and>
   find (\<lambda>p. payout_id p = ''P'' \<and> payout_status p = ''PROCESSING'') (payouts (db scenario)) = Some payout_P \<and>
   find (\<lambda>u. user_id u = doctorId payout_P) (users (db scenario)) = Some provider_D \<and>
   payout_credits payout_P = 50 \<and> user_credits provider_D = 100 \<and>
   fst (approvePayout (Inr (Some ''clerk_A'')) 9 [(''payoutId'', ''P'')] scenario) =
     Inl (Error ''Failed to approve payout: Cannot read properties of undefined (reading 'credits')'') \<and>
   db (snd (approvePayout (Inr (Some ''clerk_A'')) 9 [(''payoutId'', ''P'')] scenario)) = db scenario"
proof -
  have p: "find (\<lambda>p. payout_id p = ''P'' \<and> payout_status p = ''PROCESSING'') (payouts (db scenario)) = Some payout_P"
    by (simp add: scenario_simps)
  have d: "find (\<lambda>u. user_id u = doctorId payout_P) (users (db scenario)) = Some provider_D"
    by (simp add: scenario_simps)
  have f: "formData_get [(''payoutId'', ''P'')] ''payoutId'' = Some ''P''" "''P'' \<noteq> []"
    by (simp_all add: formData_get_def)
  have e: "payout_credits payout_P \<le> user_credits provider_D" by (simp add: scenario_simps)
  from approvePayout_sufficient_balance_fails
    [OF admin_A_verified(2) f scenario_reliable scenario_reliable p d e, of 9]
    admin_A_verified(2) p d
  show ?thesis by (simp add: scenario_simps)
qed

text \<open>
  Claim C2. The three writes of an approval run in one transaction: if the transaction
  fails, the store is the one before it (no payout marked, no credits taken, no ledger
  entry); if it returns, all three writes are in the store together. It fails in
  particular whenever the store fails its second call (the decrement of the balance) or its
  third (the insert into the ledger). And whenever \<open>approvePayout\<close> as a whole fails, the
  store is unchanged.
\<close>

theorem approve_transaction_atomic:
  "(\<forall>e. fst (transaction (approve_tx payoutId admin payout now) w) = Inl e \<longrightarrow>
      db (snd (transaction (approve_tx payoutId admin payout now) w)) = db w) \<and>
   (\<forall>x. fst (transaction (approve_tx payoutId admin payout now) w) = Inr x \<longrightarrow>
      (\<exists>owner n. get_prop payout ''doctorId'' = Inr (JStr owner) \<and>
         get_prop payout ''credits'' = Inr (JNum n) \<and>
         db (snd (transaction (approve_tx payoutId admin payout now) w)) =
           approval_committed payoutId (processedBy_value admin) now owner n (db w))) \<and>
   (call_fails 1 w \<or> call_fails 2 w \<longrightarrow>
      (\<exists>e. fst (transaction (approve_tx payoutId admin payout now) w) = Inl e)) \<and>
   (\<forall>e. fst (approvePayout caller now formData w) = Inl e \<longrightarrow>
      db (snd (approvePayout caller now formData w)) = db w)"
proof (intro conjI allI impI)
  fix e
  assume "fst (transaction (approve_tx payoutId admin payout now) w) = Inl e"
  then show "db (snd (transaction (approve_tx payoutId admin payout now) w)) = db w"
    by (rule transaction_rollback)
next
  fix x
  assume r: "fst (transaction (approve_tx payoutId admin payout now) w) = Inr x"
  obtain res w' where b: "approve_tx payoutId admin payout now w = (res, w')"
    by (cases "approve_tx payoutId admin payout now w")
  with r have t: "res = Inr x" "transaction (approve_tx payoutId admin payout now) w = (Inr x, w')"
    by (auto simp: transaction_def split: sum.splits)
  from approve_tx_commit [OF b [unfolded t(1)]] t(2)
  show "\<exists>owner n. get_prop payout ''doctorId'' = Inr (JStr owner) \<and>
         get_prop payout ''credits'' = Inr (JNum n) \<and>
         db (snd (transaction (approve_tx payoutId admin payout now) w)) =
           approval_committed payoutId (processedBy_value admin) now owner n (db w)"
    by auto
next
  assume f: "call_fails 1 w \<or> call_fails 2 w"
  show "\<exists>e. fst (transaction (approve_tx payoutId admin payout now) w) = Inl e"
  proof (cases "approve_tx payoutId admin payout now w")
    case (Pair res w')
    show ?thesis
    proof (cases res)
      case (Inl e)
      with Pair show ?thesis by (simp add: transaction_def)
    next
      case (Inr x)
      with Pair approve_tx_commit [of payoutId admin payout now w x w'] f show ?thesis by auto
    qed
  qed
next
  fix e
  assume "fst (approvePayout caller now formData w) = Inl e"
  show "db (snd (approvePayout caller now formData w)) = db w"
    using approvePayout_fails [of caller now formData w] by blast
qed

theorem approve_transaction_atomic_witness:
  "call_fails 1 (scenario_failing [None, Some ''deadlock'']) \<and>
   fst (transaction (approve_tx ''P'' (Some admin_A) (include_lawyer user_obj (db scenario) payout_P) 9)
          (scenario_failing [None, Some ''deadlock''])) = Inl (Error ''deadlock'') \<and>
   db (snd (transaction (approve_tx ''P'' (Some admin_A) (include_lawyer user_obj (db scenario) payout_P) 9)
              (scenario_failing [None, Some ''deadlock'']))) = db scenario \<and>
   map payout_status
     (payouts (db (snd (approve_tx ''P'' (Some admin_A) (include_lawyer user_obj (db scenario) payout_P) 9
                          (scenario_failing [None, Some ''deadlock''])))))
     = [''PROCESSED'', ''PROCESSING'', ''PROCESSED''] \<and>
   map payout_status (payouts (db scenario)) = [''PROCESSING'', ''PROCESSING'', ''PROCESSED''] \<and>
   call_fails 2 (scenario_failing [None, None, Some ''disk full'']) \<and>
   db (snd (transaction (approve_tx ''P'' (Some admin_A) (include_lawyer user_obj (db scenario) payout_P) 9)
              (scenario_failing [None, None, Some ''disk full'']))) = db scenario \<and>
   fst (transaction (approve_tx ''P'' (Some admin_A) (include_lawyer user_obj (db scenario) payout_P) 9)
          scenario) = Inr () \<and>
   db (snd (transaction (approve_tx ''P'' (Some admin_A) (include_lawyer user_obj (db scenario) payout_P) 9)
              scenario)) = approval_committed ''P'' ''A'' 9 ''D'' 50 (db scenario)"
proof -
  let ?p = "include_lawyer user_obj (db scenario) payout_P"
  let ?f1 = "scenario_failing [None, Some ''deadlock'']"
  let ?f2 = "scenario_failing [None, None, Some ''disk full'']"
  have c1: "call_fails 1 ?f1" by (simp add: call_fails_def scenario_simps)
  have c2: "call_fails 2 ?f2" by (simp add: call_fails_def scenario_simps)
  have body1: "approve_tx ''P'' (Some admin_A) ?p 9 ?f1 =
      (Inl (Error ''deadlock''),
       ?f1\<lparr>faults := [], db := (db scenario)\<lparr>payouts :=
          [payout_P\<lparr>payout_status := ''PROCESSED'', processedAt := Some 9, processedBy := Some ''A''\<rparr>,
           payout_Q, payout_R]\<rparr>\<rparr>)"
    by (simp add: approve_tx_def bind_act_def payout_update_processed_def store_call_def
        eval_act_def fetched_P user_update_decrement_def processedBy_value_def scenario_simps)
  have r1: "fst (transaction (approve_tx ''P'' (Some admin_A) ?p 9) ?f1) = Inl (Error ''deadlock'')"
    by (simp add: transaction_def body1)
  have w1: "map payout_status (payouts (db (snd (approve_tx ''P'' (Some admin_A) ?p 9 ?f1)))) =
      [''PROCESSED'', ''PROCESSING'', ''PROCESSED'']"
    by (simp add: body1 scenario_simps)
  have w0: "map payout_status (payouts (db scenario)) = [''PROCESSING'', ''PROCESSING'', ''PROCESSED'']"
    by (simp add: scenario_simps)
  have ok: "fst (transaction (approve_tx ''P'' (Some admin_A) ?p 9) scenario) = Inr ()"
    by (simp add: transaction_def approve_tx_def bind_act_def payout_update_processed_def store_call_def
        eval_act_def fetched_P user_update_decrement_def creditTransaction_create_def js_neg_def
        processedBy_value_def scenario_simps)
  from approve_transaction_atomic [where payoutId = "''P''" and admin = "Some admin_A" and payout = ?p
      and now = 9 and w = "?f1" and caller = "Inr None" and formData = "[]"] c1 r1
  have d1: "db (snd (transaction (approve_tx ''P'' (Some admin_A) ?p 9) ?f1)) = db scenario"
    by (simp add: scenario_simps)
  from approve_transaction_atomic [where payoutId = "''P''" and admin = "Some admin_A" and payout = ?p
      and now = 9 and w = "?f2" and caller = "Inr None" and formData = "[]"] c2
  have d2: "db (snd (transaction (approve_tx ''P'' (Some admin_A) ?p 9) ?f2)) = db scenario"
    by (auto simp: scenario_simps)
  from approve_transaction_atomic [where payoutId = "''P''" and admin = "Some admin_A" and payout = ?p
      and now = 9 and w = "scenario" and caller = "Inr None" and formData = "[]"] ok
  have d3: "db (snd (transaction (approve_tx ''P'' (Some admin_A) ?p 9) scenario)) =
      approval_committed ''P'' ''A'' 9 ''D'' 50 (db scenario)"
    by (simp add: fetched_P processedBy_value_def scenario_simps)
  from c1 r1 d1 w1 w0 c2 d2 ok d3 show ?thesis by simp
qed

text \<open>
  Claim C3. The claim reads: for a payout in status PROCESSING whose provider holds fewer
  credits than requested, an admin's \<open>approvePayout\<close> fails with the insufficient-funds
  error and writes nothing.

  The store is indeed left as it was, but the error is not the insufficient-funds one: the
  comparison \<open>payout.doctor.credits < payout.credits\<close> is never made, since reading
  \<open>payout.doctor.credits\<close> throws first (the same defect as in claim C1).
\<close>

theorem approvePayout_insufficient_balance_error:
  assumes admin: "fst (verifyAdmin caller w) = Inr True"
    and pid: "formData_get formData ''payoutId'' = Some pid" "pid \<noteq> []"
    and ok: "\<not> call_fails 1 w" "\<not> call_fails 2 w"
    and p: "find (\<lambda>p. payout_id p = pid \<and> payout_status p = ''PROCESSING'') (payouts (db w)) = Some p"
    and d: "find (\<lambda>u. user_id u = doctorId p) (users (db w)) = Some d"
    and short: "user_credits d < payout_credits p"
  shows "fst (approvePayout caller now formData w) =
           Inl (Error ''Failed to approve payout: Cannot read properties of undefined (reading 'credits')'') \<and>
         fst (approvePayout caller now formData w) \<noteq>
           Inl (Error ''Failed to approve payout: lawyer doesn't have enough credits for this payout'') \<and>
         db (snd (approvePayout caller now formData w)) = db w"
  by (simp add: approvePayout_found [OF admin pid ok p])

theorem approvePayout_insufficient_balance_error_witness:
  "fst (verifyAdmin (Inr (Some ''clerk_A'')) scenario) = Inr True \<and>
   find (\<lambda>p. payout_id p = ''Q'' \<and> payout_status p = ''PROCESSING'') (payouts (db scenario)) = Some payout_Q \<and>
   find (\<lambda>u. user_id u = doctorId payout_Q) (users (db scenario)) = Some provider_D \<and>
   payout_credits payout_Q = 150 \<and> user_credits provider_D = 100 \<and>
   fst (approvePayout (Inr (Some ''clerk_A'')) 9 [(''payoutId'', ''Q'')] scenario) =
     Inl (Error ''Failed to approve payout: Cannot read properties of undefined (reading 'credits')'') \<and>
   db (snd (approvePayout (Inr (Some ''clerk_A'')) 9 [(''payoutId'', ''Q'')] scenario)) = db scenario"
proof -
  have p: "find (\<lambda>p. payout_id p = ''Q'' \<and> payout_status p = ''PROCESSING'') (payouts (db scenario)) = Some payout_Q"
    by (simp add: scenario_simps)
  have d: "find (\<lambda>u. user_id u = doctorId payout_Q) (users (db scenario)) = Some provider_D"
    by (simp add: scenario_simps)
  have f: "formData_get [(''payoutId'', ''Q'')] ''payoutId'' = Some ''Q''" "''Q'' \<noteq> []"
    by (simp_all add: formData_get_def)
  have e: "user_credits provider_D < payout_credits payout_Q" by (simp add: scenario_simps)
  from approvePayout_insufficient_balance_error
    [OF admin_A_verified(2) f scenario_reliable scenario_reliable p d e, of 9]
    admin_A_verified(2) p d
  show ?thesis by (simp add: scenario_simps)
qed

text \<open>
  Claim C4. An admin calls \<open>approvePayout\<close> with a payout id that names no payout in status
  PROCESSING (no payout has the id, or the one that has it is no longer PROCESSING), and
  the store answers the two lookups. Then the call fails with the error "Payout request not
  found or already processed", wrapped by the \<open>catch\<close>, and neither the store nor the
  invalidated paths change. This holds in particular in any store that the three writes of
  an approval of that payout have been committed to, which is what a second call for the
  same id meets.
\<close>

theorem approvePayout_not_found:
  assumes admin: "fst (verifyAdmin caller w) = Inr True"
    and pid: "formData_get formData ''payoutId'' = Some pid" "pid \<noteq> []"
    and ok: "\<not> call_fails 1 w" "\<not> call_fails 2 w"
    and p: "(\<forall>p \<in> set (payouts (db w)). payout_id p = pid \<longrightarrow> payout_status p \<noteq> ''PROCESSING'') \<or>
            (\<exists>who t owner n s. db w = approval_committed pid who t owner n s)"
  shows "fst (approvePayout caller now formData w) =
           Inl (Error ''Failed to approve payout: Payout request not found or already processed'') \<and>
         db (snd (approvePayout caller now formData w)) = db w \<and>
         revalidated (snd (approvePayout caller now formData w)) = revalidated w"
proof -
  have "find (\<lambda>p. payout_id p = pid \<and> payout_status p = ''PROCESSING'') (payouts (db w)) = None"
    using p
  proof
    assume "\<forall>p \<in> set (payouts (db w)). payout_id p = pid \<longrightarrow> payout_status p \<noteq> ''PROCESSING''"
    then show ?thesis by (auto simp: find_None_iff)
  next
    assume "\<exists>who t owner n s. db w = approval_committed pid who t owner n s"
    then obtain who t owner n s where "db w = approval_committed pid who t owner n s" by blast
    then have "payouts (db w) =
        map (\<lambda>p. if payout_id p = pid
                 then p\<lparr>payout_status := ''PROCESSED'', processedAt := Some t, processedBy := Some who\<rparr>
                 else p) (payouts s)"
      by (simp add: approval_committed_def)
    then show ?thesis by (simp only: find_processing_after_mark)
  qed
  from approvePayout_not_found_run [OF admin pid ok this] show ?thesis by simp
qed

theorem approvePayout_not_found_witness:
  "fst (approvePayout (Inr (Some ''clerk_A'')) 9 [(''payoutId'', ''R'')] scenario) =
     Inl (Error ''Failed to approve payout: Payout request not found or already processed'') \<and>
   db (snd (approvePayout (Inr (Some ''clerk_A'')) 9 [(''payoutId'', ''R'')] scenario)) = db scenario \<and>
   fst (approvePayout (Inr (Some ''clerk_A'')) 9 [(''payoutId'', ''no such payout'')] scenario) =
     Inl (Error ''Failed to approve payout: Payout request not found or already processed'') \<and>
   db (snd (approvePayout (Inr (Some ''clerk_A'')) 9 [(''payoutId'', ''no such payout'')] scenario)) = db scenario \<and>
   fst (approvePayout (Inr (Some ''clerk_A'')) 10 [(''payoutId'', ''P'')]
          (scenario\<lparr>db := approval_committed ''P'' ''A'' 9 ''D'' 50 (db scenario)\<rparr>)) =
     Inl (Error ''Failed to approve payout: Payout request not found or already processed'') \<and>
   db (snd (approvePayout (Inr (Some ''clerk_A'')) 10 [(''payoutId'', ''P'')]
              (scenario\<lparr>db := approval_committed ''P'' ''A'' 9 ''D'' 50 (db scenario)\<rparr>))) =
     approval_committed ''P'' ''A'' 9 ''D'' 50 (db scenario)"
proof -
  let ?w = "scenario\<lparr>db := approval_committed ''P'' ''A'' 9 ''D'' 50 (db scenario)\<rparr>"
  have a: "fst (verifyAdmin (Inr (Some ''clerk_A'')) ?w) = Inr True"
    by (simp add: verifyAdmin_result call_fails_def approval_committed_def scenario_simps)
  have r: "\<not> call_fails 1 ?w" "\<not> call_fails 2 ?w"
    by (simp_all add: scenario_reliable)
  have c: "(\<forall>p \<in> set (payouts (db ?w)). payout_id p = ''P'' \<longrightarrow> payout_status p \<noteq> ''PROCESSING'') \<or>
      (\<exists>who t owner n s. db ?w = approval_committed ''P'' who t owner n s)"
  proof -
    have "db ?w = approval_committed ''P'' ''A'' 9 ''D'' 50 (db scenario)" by simp
    then show ?thesis by blast
  qed
  from approvePayout_not_found [OF admin_A_verified(2) _ _ scenario_reliable scenario_reliable,
      of "[(''payoutId'', ''R'')]" "''R''" 9]
    approvePayout_not_found [OF admin_A_verified(2) _ _ scenario_reliable scenario_reliable,
      of "[(''payoutId'', ''no such payout'')]" "''no such payout''" 9]
    approvePayout_not_found [OF a _ _ r c, of "[(''payoutId'', ''P'')]" 10]
  show ?thesis by (simp add: formData_get_def scenario_simps)
qed

text \<open>
  Claim C5. \<open>verifyAdmin\<close> raises exactly when \<open>auth()\<close> rejects, and then with the error
  of \<open>auth()\<close>: the call stands before the \<open>try\<close>. Whenever \<open>auth()\<close> resolves,
  \<open>verifyAdmin\<close> does not raise and returns a boolean. With \<open>clerkUserId\<close> unique among
  the users (it is the key of \<open>findUnique\<close>), it then returns true exactly when the caller
  has a non-empty identity, the lookup does not fail, and some user has that identity as
  \<open>clerkUserId\<close> and the role ADMIN. It returns false for a caller without identity, for
  an identity no user has, and when the lookup fails.
\<close>

theorem verifyAdmin_raises_only_when_auth_rejects:
  assumes "distinct (map clerkUserId (users (db w)))"
  shows "(\<forall>e. fst (verifyAdmin caller w) = Inl e \<longleftrightarrow> caller = Inl e) \<and>
         (\<forall>session. caller = Inr session \<longrightarrow>
            (\<exists>b. fst (verifyAdmin caller w) = Inr b) \<and>
            (fst (verifyAdmin caller w) = Inr True \<longleftrightarrow>
               (\<exists>userId u. session = Some userId \<and> userId \<noteq> [] \<and> \<not> call_fails 0 w \<and>
                  u \<in> set (users (db w)) \<and> clerkUserId u = userId \<and> role u = ''ADMIN'')) \<and>
            (session = None \<longrightarrow> fst (verifyAdmin caller w) = Inr False) \<and>
            ((\<forall>u \<in> set (users (db w)). Some (clerkUserId u) \<noteq> session) \<longrightarrow>
               fst (verifyAdmin caller w) = Inr False) \<and>
            (call_fails 0 w \<longrightarrow> fst (verifyAdmin caller w) = Inr False))"
proof (cases caller)
  case (Inl e)
  then show ?thesis by (simp add: verifyAdmin_rejected)
next
  case (Inr session)
  have key: "\<And>userId u. find (\<lambda>u. clerkUserId u = userId) (users (db w)) = Some u \<longleftrightarrow>
      u \<in> set (users (db w)) \<and> clerkUserId u = userId"
    using assms by (rule find_unique_key)
  show ?thesis
    unfolding Inr verifyAdmin_result fst_conv key by auto
qed

theorem verifyAdmin_raises_only_when_auth_rejects_witness:
  "distinct (map clerkUserId (users (db scenario))) \<and>
   fst (verifyAdmin (Inr (Some ''clerk_A'')) scenario) = Inr True \<and>
   fst (verifyAdmin (Inr (Some ''clerk_D'')) scenario) = Inr False \<and>
   fst (verifyAdmin (Inr (Some ''clerk_X'')) scenario) = Inr False \<and>
   fst (verifyAdmin (Inr None) scenario) = Inr False \<and>
   fst (verifyAdmin (Inr (Some ''clerk_A'')) (scenario_failing [Some ''connection lost''])) = Inr False \<and>
   fst (verifyAdmin (Inl (Error ''identity provider unavailable'')) scenario) =
     Inl (Error ''identity provider unavailable'')"
proof -
  have d: "distinct (map clerkUserId (users (db scenario)))"
    by (simp add: scenario_simps)
  have d': "distinct (map clerkUserId (users (db (scenario_failing [Some ''connection lost'']))))"
    by (simp add: scenario_simps)
  have a: "fst (verifyAdmin (Inr (Some ''clerk_A'')) scenario) = Inr True"
    using verifyAdmin_raises_only_when_auth_rejects [OF d, of "Inr (Some ''clerk_A'')"]
    by (auto simp: call_fails_def scenario_simps)
  have b: "fst (verifyAdmin (Inr (Some ''clerk_D'')) scenario) = Inr False"
    using verifyAdmin_raises_only_when_auth_rejects [OF d, of "Inr (Some ''clerk_D'')"]
    by (auto simp: call_fails_def scenario_simps)
  have c: "fst (verifyAdmin (Inr (Some ''clerk_X'')) scenario) = Inr False"
    using verifyAdmin_raises_only_when_auth_rejects [OF d, of "Inr (Some ''clerk_X'')"]
    by (simp add: scenario_simps)
  have n: "fst (verifyAdmin (Inr None) scenario) = Inr False"
    using verifyAdmin_raises_only_when_auth_rejects [OF d, of "Inr None"] by simp
  have f: "fst (verifyAdmin (Inr (Some ''clerk_A'')) (scenario_failing [Some ''connection lost''])) = Inr False"
    using verifyAdmin_raises_only_when_auth_rejects [OF d', of "Inr (Some ''clerk_A'')"]
    by (simp add: call_fails_def scenario_simps)
  have r: "fst (verifyAdmin (Inl (Error ''identity provider unavailable'')) scenario) =
      Inl (Error ''identity provider unavailable'')"
    using verifyAdmin_raises_only_when_auth_rejects
      [OF d, of "Inl (Error ''identity provider unavailable'')"]
    by simp
  from d a b c n f r show ?thesis by simp
qed

text \<open>
  Claim C5 as first stated, "\<open>verifyAdmin\<close> never raises", fails when \<open>auth()\<close> rejects:
  the rejection leaves \<open>verifyAdmin\<close> uncaught, and no boolean is returned.
\<close>

theorem verifyAdmin_raises_counterexample:
  "fst (verifyAdmin (Inl (Error ''identity provider unavailable'')) scenario) =
     Inl (Error ''identity provider unavailable'') \<and>
   fst (verifyAdmin (Inl (Error ''identity provider unavailable'')) scenario) \<noteq> Inr False \<and>
   fst (verifyAdmin (Inl (Error ''identity provider unavailable'')) scenario) \<noteq> Inr True"
  by (simp add: verifyAdmin_def auth_def bind_act_def)

text \<open>
  Claim C6. For a caller \<open>verifyAdmin\<close> answers false for, each of the six gated handlers
  throws "Unauthorized" and leaves the store as it was, whatever its form data.
\<close>

theorem non_admin_unauthorized:
  assumes "fst (verifyAdmin caller w) = Inr False"
  shows "fst (getPendingDoctors caller w) = Inl (Error ''Unauthorized'') \<and>
         db (snd (getPendingDoctors caller w)) = db w \<and>
         fst (getVerifiedLawyers caller w) = Inl (Error ''Unauthorized'') \<and>
         db (snd (getVerifiedLawyers caller w)) = db w \<and>
         fst (updateLawyerStatus caller formData w) = Inl (Error ''Unauthorized'') \<and>
         db (snd (updateLawyerStatus caller formData w)) = db w \<and>
         fst (updateLawyerActiveStatus caller formData w) = Inl (Error ''Unauthorized'') \<and>
         db (snd (updateLawyerActiveStatus caller formData w)) = db w \<and>
         fst (getPendingPayouts caller w) = Inl (Error ''Unauthorized'') \<and>
         db (snd (getPendingPayouts caller w)) = db w \<and>
         fst (approvePayout caller now formData w) = Inl (Error ''Unauthorized'') \<and>
         db (snd (approvePayout caller now formData w)) = db w"
  unfolding getPendingDoctors_def getVerifiedLawyers_def updateLawyerStatus_def
    updateLawyerActiveStatus_def getPendingPayouts_def approvePayout_def
    not_admin_bind [OF assms]
  by (simp add: verifyAdmin_db)

theorem non_admin_unauthorized_witness:
  "fst (verifyAdmin (Inr (Some ''clerk_D'')) scenario) = Inr False \<and>
   getPendingDoctors (Inr (Some ''clerk_D'')) scenario = (Inl (Error ''Unauthorized''), scenario) \<and>
   fst (approvePayout (Inr (Some ''clerk_D'')) 9 [(''payoutId'', ''P'')] scenario) = Inl (Error ''Unauthorized'') \<and>
   db (snd (approvePayout (Inr (Some ''clerk_D'')) 9 [(''payoutId'', ''P'')] scenario)) = db scenario \<and>
   fst (updateLawyerStatus (Inr (Some ''clerk_D'')) [(''lawyerId'', ''D''), (''status'', ''VERIFIED'')] scenario) =
     Inl (Error ''Unauthorized'')"
proof -
  have na: "fst (verifyAdmin (Inr (Some ''clerk_D'')) scenario) = Inr False"
    by (simp add: verifyAdmin_result call_fails_def scenario_simps)
  have w: "snd (verifyAdmin (Inr (Some ''clerk_D'')) scenario) = scenario"
    by (simp add: verifyAdmin_result scenario_def)
  have l: "getPendingDoctors (Inr (Some ''clerk_D'')) scenario = (Inl (Error ''Unauthorized''), scenario)"
    by (simp add: getPendingDoctors_def not_admin_bind [OF na] w)
  from non_admin_unauthorized [OF na, of "[(''payoutId'', ''P'')]" 9]
    non_admin_unauthorized [OF na, of "[(''lawyerId'', ''D''), (''status'', ''VERIFIED'')]" 0] na l
  show ?thesis by simp
qed

text \<open>
  Claim C7. An admin calls \<open>updateLawyerActiveStatus\<close> for an existing user \<open>lid\<close> and the
  store answers the update. With \<open>suspend\<close> sent as "true" the user's verification status
  becomes PENDING; with "false" it becomes VERIFIED; and a call with "true" followed by a
  call with "false" (the store answering those calls too) leaves it VERIFIED. Nothing else
  of the user changes.
\<close>

theorem suspend_roundtrip:
  assumes admin: "fst (verifyAdmin caller w) = Inr True"
    and ok: "\<not> call_fails 1 w"
    and lid: "formData_get formData ''lawyerId'' = Some lid" "lid \<noteq> []"
    and u: "find (\<lambda>u. user_id u = lid) (users (db w)) = Some u"
  shows "(formData_get formData ''suspend'' = Some ''true'' \<longrightarrow>
            fst (updateLawyerActiveStatus caller formData w) = Inr Success \<and>
            find (\<lambda>u. user_id u = lid) (users (db (snd (updateLawyerActiveStatus caller formData w)))) =
              Some (u\<lparr>verificationStatus := ''PENDING''\<rparr>)) \<and>
         (formData_get formData ''suspend'' = Some ''false'' \<longrightarrow>
            fst (updateLawyerActiveStatus caller formData w) = Inr Success \<and>
            find (\<lambda>u. user_id u = lid) (users (db (snd (updateLawyerActiveStatus caller formData w)))) =
              Some (u\<lparr>verificationStatus := ''VERIFIED''\<rparr>)) \<and>
         (formData_get formData ''suspend'' = Some ''true'' \<and>
          formData_get formData' ''lawyerId'' = Some lid \<and>
          formData_get formData' ''suspend'' = Some ''false'' \<and>
          \<not> call_fails 2 w \<and> \<not> call_fails 3 w \<longrightarrow>
            fst (updateLawyerActiveStatus caller formData'
                   (snd (updateLawyerActiveStatus caller formData w))) = Inr Success \<and>
            find (\<lambda>u. user_id u = lid)
              (users (db (snd (updateLawyerActiveStatus caller formData'
                                 (snd (updateLawyerActiveStatus caller formData w)))))) =
              Some (u\<lparr>verificationStatus := ''VERIFIED''\<rparr>))"
proof (intro conjI impI)
  assume "formData_get formData ''suspend'' = Some ''true''"
  then show "fst (updateLawyerActiveStatus caller formData w) = Inr Success"
    and "find (\<lambda>u. user_id u = lid) (users (db (snd (updateLawyerActiveStatus caller formData w)))) =
              Some (u\<lparr>verificationStatus := ''PENDING''\<rparr>)"
    by (simp_all add: updateLawyerActiveStatus_run [OF admin ok lid u] status_updated_find [OF u])
next
  assume "formData_get formData ''suspend'' = Some ''false''"
  then show "fst (updateLawyerActiveStatus caller formData w) = Inr Success"
    and "find (\<lambda>u. user_id u = lid) (users (db (snd (updateLawyerActiveStatus caller formData w)))) =
              Some (u\<lparr>verificationStatus := ''VERIFIED''\<rparr>)"
    by (simp_all add: updateLawyerActiveStatus_run [OF admin ok lid u] status_updated_find [OF u])
next
  assume h: "formData_get formData ''suspend'' = Some ''true'' \<and>
          formData_get formData' ''lawyerId'' = Some lid \<and>
          formData_get formData' ''suspend'' = Some ''false'' \<and>
          \<not> call_fails 2 w \<and> \<not> call_fails 3 w"
  let ?w1 = "status_updated lid ''PENDING'' w"
  have first: "snd (updateLawyerActiveStatus caller formData w) = ?w1"
    using h by (simp add: updateLawyerActiveStatus_run [OF admin ok lid u])
  have admin1: "fst (verifyAdmin caller ?w1) = Inr True"
    using admin h by (simp add: status_updated_admin)
  have ok1: "\<not> call_fails 1 ?w1"
    using h by (simp add: status_updated_call_fails numeral_3_eq_3)
  have u1: "find (\<lambda>u. user_id u = lid) (users (db ?w1)) = Some (u\<lparr>verificationStatus := ''PENDING''\<rparr>)"
    by (rule status_updated_find [OF u])
  have lid': "formData_get formData' ''lawyerId'' = Some lid" using h by simp
  have second: "updateLawyerActiveStatus caller formData' ?w1 =
      (Inr Success, status_updated lid ''VERIFIED'' ?w1)"
    using h by (simp add: updateLawyerActiveStatus_run [OF admin1 ok1 lid' lid(2) u1])
  show "fst (updateLawyerActiveStatus caller formData'
                   (snd (updateLawyerActiveStatus caller formData w))) = Inr Success"
    by (simp add: first second)
  show "find (\<lambda>u. user_id u = lid)
              (users (db (snd (updateLawyerActiveStatus caller formData'
                                 (snd (updateLawyerActiveStatus caller formData w)))))) =
              Some (u\<lparr>verificationStatus := ''VERIFIED''\<rparr>)"
    using status_updated_find [OF u1, of "''VERIFIED''"] by (simp add: first second)
qed

theorem suspend_roundtrip_witness:
  "fst (updateLawyerActiveStatus (Inr (Some ''clerk_A'')) [(''lawyerId'', ''D''), (''suspend'', ''true'')] scenario) =
     Inr Success \<and>
   find (\<lambda>u. user_id u = ''D'')
     (users (db (snd (updateLawyerActiveStatus (Inr (Some ''clerk_A''))
                        [(''lawyerId'', ''D''), (''suspend'', ''true'')] scenario)))) =
     Some (provider_D\<lparr>verificationStatus := ''PENDING''\<rparr>) \<and>
   fst (updateLawyerActiveStatus (Inr (Some ''clerk_A'')) [(''lawyerId'', ''D''), (''suspend'', ''false'')]
          (snd (updateLawyerActiveStatus (Inr (Some ''clerk_A''))
                  [(''lawyerId'', ''D''), (''suspend'', ''true'')] scenario))) = Inr Success \<and>
   find (\<lambda>u. user_id u = ''D'')
     (users (db (snd (updateLawyerActiveStatus (Inr (Some ''clerk_A''))
                        [(''lawyerId'', ''D''), (''suspend'', ''false'')]
                        (snd (updateLawyerActiveStatus (Inr (Some ''clerk_A''))
                                [(''lawyerId'', ''D''), (''suspend'', ''true'')] scenario)))))) =
     Some (provider_D\<lparr>verificationStatus := ''VERIFIED''\<rparr>)"
  using suspend_roundtrip [OF admin_A_verified(2) scenario_reliable _ _ provider_D_found,
      of "[(''lawyerId'', ''D''), (''suspend'', ''true'')]"
         "[(''lawyerId'', ''D''), (''suspend'', ''false'')]"]
  by (simp add: formData_get_def scenario_reliable)

text \<open>
  Claim C8. An admin calls \<open>updateLawyerStatus\<close>. When \<open>lawyerId\<close> is absent or empty, or
  \<open>status\<close> is not VERIFIED or REJECTED (or absent), the call throws "Invalid input" in
  the world the privilege check left: no further store call was made and the store is
  unchanged. When both are well-formed, \<open>lawyerId\<close> names an existing user and the store
  answers the update, the call returns success and that user's verification status is the
  one given.
\<close>

theorem updateLawyerStatus_validation:
  assumes admin: "fst (verifyAdmin caller w) = Inr True"
  shows "((formData_get formData ''lawyerId'' = None \<or> formData_get formData ''lawyerId'' = Some [] \<or>
           formData_get formData ''status'' \<notin> {Some ''VERIFIED'', Some ''REJECTED''}) \<longrightarrow>
            fst (updateLawyerStatus caller formData w) = Inl (Error ''Invalid input'') \<and>
            snd (updateLawyerStatus caller formData w) = snd (verifyAdmin caller w) \<and>
            db (snd (updateLawyerStatus caller formData w)) = db w) \<and>
         (formData_get formData ''lawyerId'' = Some lid \<and> lid \<noteq> [] \<and>
          formData_get formData ''status'' = Some st \<and> st \<in> {''VERIFIED'', ''REJECTED''} \<and>
          find (\<lambda>u. user_id u = lid) (users (db w)) = Some u \<and> \<not> call_fails 1 w \<longrightarrow>
            fst (updateLawyerStatus caller formData w) = Inr Success \<and>
            find (\<lambda>u. user_id u = lid) (users (db (snd (updateLawyerStatus caller formData w)))) =
              Some (u\<lparr>verificationStatus := st\<rparr>))"
proof (intro conjI impI)
  assume bad: "formData_get formData ''lawyerId'' = None \<or> formData_get formData ''lawyerId'' = Some [] \<or>
           formData_get formData ''status'' \<notin> {Some ''VERIFIED'', Some ''REJECTED''}"
  have w1: "snd (verifyAdmin caller w) = w\<lparr>faults := tl (faults w)\<rparr>"
    by (rule admin_bind(4) [OF admin])
  from bad have run: "updateLawyerStatus caller formData w =
      (Inl (Error ''Invalid input''), w\<lparr>faults := tl (faults w)\<rparr>)"
    unfolding updateLawyerStatus_def admin_bind(1) [OF admin]
    by (auto simp: throw_def split: option.splits)
  show "fst (updateLawyerStatus caller formData w) = Inl (Error ''Invalid input'')"
    and "snd (updateLawyerStatus caller formData w) = snd (verifyAdmin caller w)"
    and "db (snd (updateLawyerStatus caller formData w)) = db w"
    by (simp_all add: run w1)
next
  assume good: "formData_get formData ''lawyerId'' = Some lid \<and> lid \<noteq> [] \<and>
          formData_get formData ''status'' = Some st \<and> st \<in> {''VERIFIED'', ''REJECTED''} \<and>
          find (\<lambda>u. user_id u = lid) (users (db w)) = Some u \<and> \<not> call_fails 1 w"
  then have ok: "\<not> call_fails 1 w" and u: "find (\<lambda>u. user_id u = lid) (users (db w)) = Some u"
    by simp_all
  from good have run: "updateLawyerStatus caller formData w = (Inr Success, status_updated lid st w)"
    unfolding updateLawyerStatus_def admin_bind(1) [OF admin]
    by (auto simp: status_update_run [OF ok u])
  show "fst (updateLawyerStatus caller formData w) = Inr Success"
    and "find (\<lambda>u. user_id u = lid) (users (db (snd (updateLawyerStatus caller formData w)))) =
              Some (u\<lparr>verificationStatus := st\<rparr>)"
    by (simp_all add: run status_updated_find [OF u])
qed

theorem updateLawyerStatus_validation_witness:
  "fst (updateLawyerStatus (Inr (Some ''clerk_A'')) [(''lawyerId'', ''D''), (''status'', ''PENDING'')] scenario) =
     Inl (Error ''Invalid input'') \<and>
   db (snd (updateLawyerStatus (Inr (Some ''clerk_A'')) [(''lawyerId'', ''D''), (''status'', ''PENDING'')] scenario)) =
     db scenario \<and>
   fst (updateLawyerStatus (Inr (Some ''clerk_A'')) [(''status'', ''VERIFIED'')] scenario) =
     Inl (Error ''Invalid input'') \<and>
   fst (updateLawyerStatus (Inr (Some ''clerk_A'')) [(''lawyerId'', ''D''), (''status'', ''REJECTED'')] scenario) =
     Inr Success \<and>
   find (\<lambda>u. user_id u = ''D'')
     (users (db (snd (updateLawyerStatus (Inr (Some ''clerk_A''))
                        [(''lawyerId'', ''D''), (''status'', ''REJECTED'')] scenario)))) =
     Some (provider_D\<lparr>verificationStatus := ''REJECTED''\<rparr>)"
  using updateLawyerStatus_validation [OF admin_A_verified(2),
      of "[(''lawyerId'', ''D''), (''status'', ''PENDING'')]" "''D''" "''PENDING''" provider_D]
    updateLawyerStatus_validation [OF admin_A_verified(2),
      of "[(''status'', ''VERIFIED'')]" "''D''" "''VERIFIED''" provider_D]
    updateLawyerStatus_validation [OF admin_A_verified(2),
      of "[(''lawyerId'', ''D''), (''status'', ''REJECTED'')]" "''D''" "''REJECTED''" provider_D]
  by (simp add: formData_get_def provider_D_found scenario_reliable verifyAdmin_db)

text \<open>
  Claim C9. An admin calls the two list handlers. When the store answers the query, each
  returns exactly the users matching its filter (role LAWYER and status PENDING, or role
  LAWYER and status VERIFIED), possibly none. When the store fails the query, whatever the
  failure, \<open>getPendingDoctors\<close> throws "Failed to fetch pending lawyers" and
  \<open>getVerifiedLawyers\<close> throws nothing and returns the error value "Failed to fetch
  verified lawyers".
\<close>

theorem list_operations_asymmetry:
  assumes admin: "fst (verifyAdmin caller w) = Inr True"
  shows "(\<not> call_fails 1 w \<longrightarrow>
            (\<exists>ds. fst (getPendingDoctors caller w) = Inr (Doctors ds) \<and>
               mset ds = mset (filter (\<lambda>u. role u = ''LAWYER'' \<and> verificationStatus u = ''PENDING'')
                                 (users (db w)))) \<and>
            (\<exists>ls. fst (getVerifiedLawyers caller w) = Inr (Lawyers ls) \<and>
               mset ls = mset (filter (\<lambda>u. role u = ''LAWYER'' \<and> verificationStatus u = ''VERIFIED'')
                                 (users (db w))))) \<and>
         (call_fails 1 w \<longrightarrow>
            fst (getPendingDoctors caller w) = Inl (Error ''Failed to fetch pending lawyers'') \<and>
            fst (getVerifiedLawyers caller w) = Inr (ErrorValue ''Failed to fetch verified lawyers''))"
proof (cases "call_fails 1 w")
  case True
  let ?w1 = "w\<lparr>faults := tl (faults w)\<rparr>"
  from True have f: "call_fails 0 ?w1" by simp
  obtain m where p: "user_findMany (\<lambda>u. role u = ''LAWYER'' \<and> verificationStatus u = ''PENDING'')
        createdAt_desc ?w1 = (Inl (Error m), ?w1\<lparr>faults := tl (faults ?w1)\<rparr>)"
    using user_findMany_fail [OF f] by blast
  obtain m' where v: "user_findMany (\<lambda>u. role u = ''LAWYER'' \<and> verificationStatus u = ''VERIFIED'')
        name_asc ?w1 = (Inl (Error m'), ?w1\<lparr>faults := tl (faults ?w1)\<rparr>)"
    using user_findMany_fail [OF f] by blast
  from True p v show ?thesis
    unfolding getPendingDoctors_def getVerifiedLawyers_def admin_bind(1) [OF admin]
    by (simp add: try_catch_def bind_act_def throw_def return_act_def)
next
  case False
  let ?w1 = "w\<lparr>faults := tl (faults w)\<rparr>"
  from False have f: "\<not> call_fails 0 ?w1" by simp
  from False show ?thesis
    unfolding getPendingDoctors_def getVerifiedLawyers_def admin_bind(1) [OF admin]
    by (simp add: try_catch_def bind_act_def return_act_def user_findMany_ok [OF f]
        createdAt_desc_def name_asc_def)
qed

theorem list_operations_asymmetry_witness:
  "fst (verifyAdmin (Inr (Some ''clerk_A'')) (scenario_failing [None, Some ''connection lost''])) = Inr True \<and>
   call_fails 1 (scenario_failing [None, Some ''connection lost'']) \<and>
   fst (getPendingDoctors (Inr (Some ''clerk_A'')) (scenario_failing [None, Some ''connection lost''])) =
     Inl (Error ''Failed to fetch pending lawyers'') \<and>
   fst (getVerifiedLawyers (Inr (Some ''clerk_A'')) (scenario_failing [None, Some ''connection lost''])) =
     Inr (ErrorValue ''Failed to fetch verified lawyers'') \<and>
   \<not> call_fails 1 scenario \<and>
   fst (getPendingDoctors (Inr (Some ''clerk_A'')) scenario) = Inr (Doctors []) \<and>
   fst (getVerifiedLawyers (Inr (Some ''clerk_A'')) scenario) = Inr (Lawyers [provider_D])"
proof -
  let ?f = "scenario_failing [None, Some ''connection lost'']"
  have a: "fst (verifyAdmin (Inr (Some ''clerk_A'')) ?f) = Inr True" by (rule admin_A_verified)
  have cf: "call_fails 1 ?f" by (simp add: call_fails_def scenario_simps)
  have ok: "\<not> call_fails 1 scenario" by (simp add: call_fails_def scenario_simps)
  have p: "filter (\<lambda>u. role u = ''LAWYER'' \<and> verificationStatus u = ''PENDING'') (users (db scenario)) = []"
    by (simp add: scenario_simps)
  have v: "filter (\<lambda>u. role u = ''LAWYER'' \<and> verificationStatus u = ''VERIFIED'') (users (db scenario)) = [provider_D]"
    by (simp add: scenario_simps)
  from list_operations_asymmetry [OF a] cf
    list_operations_asymmetry [OF admin_A_verified(2)] ok a
  show ?thesis by (auto simp: p v)
qed

text \<open>
  Claim C10. An admin calls \<open>updateLawyerActiveStatus\<close> for an existing user and the store
  answers the update. Whenever the \<open>suspend\<close> field is anything but the string "true"
  (absent, "false", or any other value), the call returns success and the user's
  verification status becomes VERIFIED.
\<close>

theorem suspend_other_than_true:
  assumes admin: "fst (verifyAdmin caller w) = Inr True"
    and ok: "\<not> call_fails 1 w"
    and lid: "formData_get formData ''lawyerId'' = Some lid" "lid \<noteq> []"
    and u: "find (\<lambda>u. user_id u = lid) (users (db w)) = Some u"
    and suspend: "formData_get formData ''suspend'' \<noteq> Some ''true''"
  shows "fst (updateLawyerActiveStatus caller formData w) = Inr Success \<and>
         find (\<lambda>u. user_id u = lid) (users (db (snd (updateLawyerActiveStatus caller formData w)))) =
           Some (u\<lparr>verificationStatus := ''VERIFIED''\<rparr>)"
  using suspend
  by (simp add: updateLawyerActiveStatus_run [OF admin ok lid u] status_updated_find [OF u])

theorem suspend_other_than_true_witness:
  "formData_get [(''lawyerId'', ''D'')] ''suspend'' \<noteq> Some ''true'' \<and>
   fst (updateLawyerActiveStatus (Inr (Some ''clerk_A'')) [(''lawyerId'', ''D'')] scenario) = Inr Success \<and>
   find (\<lambda>u. user_id u = ''D'')
     (users (db (snd (updateLawyerActiveStatus (Inr (Some ''clerk_A'')) [(''lawyerId'', ''D'')] scenario)))) =
     Some (provider_D\<lparr>verificationStatus := ''VERIFIED''\<rparr>) \<and>
   formData_get [(''lawyerId'', ''D''), (''suspend'', ''TRUE'')] ''suspend'' \<noteq> Some ''true'' \<and>
   fst (updateLawyerActiveStatus (Inr (Some ''clerk_A'')) [(''lawyerId'', ''D''), (''suspend'', ''TRUE'')] scenario) =
     Inr Success \<and>
   find (\<lambda>u. user_id u = ''D'')
     (users (db (snd (updateLawyerActiveStatus (Inr (Some ''clerk_A''))
                        [(''lawyerId'', ''D''), (''suspend'', ''TRUE'')] scenario)))) =
     Some (provider_D\<lparr>verificationStatus := ''VERIFIED''\<rparr>)"
  using suspend_other_than_true [OF admin_A_verified(2) scenario_reliable _ _ provider_D_found,
      of "[(''lawyerId'', ''D'')]"]
    suspend_other_than_true [OF admin_A_verified(2) scenario_reliable _ _ provider_D_found,
      of "[(''lawyerId'', ''D''), (''suspend'', ''TRUE'')]"]
  by (simp add: formData_get_def)

end
